theory Spec2Isabelle
  imports Main "HOL-Library.Word"
begin

unbundle bit_operations_syntax

section \<open>Data model of PeRecompiler.cpp\<close>

type_synonym u8 = "8 word"
type_synonym u16 = "16 word"
type_synonym u32 = "32 word"

text \<open>Constants of PeRecompiler.cpp (lines 14-15) and of Windows.h.\<close>

definition TRICKY_BASE_ADDRESS :: u32 where
  "TRICKY_BASE_ADDRESS = 0xFFFF0000"

definition ACTUALIZED_BASE_ADDRESS :: u32 where
  "ACTUALIZED_BASE_ADDRESS = 0x00010000"

definition IMAGE_REL_BASED_HIGHLOW :: u16 where
  "IMAGE_REL_BASED_HIGHLOW = 3"

definition IMAGE_DLLCHARACTERISTICS_DYNAMIC_BASE :: u32 where
  "IMAGE_DLLCHARACTERISTICS_DYNAMIC_BASE = 0x0040"

text \<open>
  \<open>PeSectionContents\<close>: the in-memory mirror of one section. The field \<open>size\<close> of the
  source is \<open>rawSize\<close> here (\<open>size\<close> is a constant of HOL). \<open>index\<close> is the position of
  the section in the section table.
\<close>

record PeSectionContents =
  index :: nat
  RVA :: u32
  rawSize :: u32
  rawPointer :: u32
  virtualSize :: u32
  name :: string
  data :: "u8 list"

text \<open>
  The PeLib objects the recompiler works on: one entry of the section table, the fields
  of the PE header that PeRecompiler.cpp reads or writes, one block of the base
  relocation directory, and the file handle that owns them. \<open>NumberOfSections\<close> is
  the count field of the header (\<open>getNumberOfSections\<close>), which \<open>makeValid\<close>
  recomputes from the section table. \<open>fileRelocations\<close> is what
  \<open>readRelocationsDirectory\<close> parses from the input file (\<open>None\<close>: the read fails);
  \<open>addressOfPeHeader\<close> is \<open>mzHeader.getAddressOfPeHeader()\<close>.
\<close>

record SectionHeader =
  SectionName :: string
  VirtualSize :: u32
  VirtualAddress :: u32
  SizeOfRawData :: u32
  PointerToRawData :: u32
  Characteristics :: u32

record PeHeader =
  DllCharacteristics :: u16
  ImageBase :: u32
  AddressOfEntryPoint :: u32
  IddBaseRelocRva :: u32
  IddBaseRelocSize :: u32
  IddIatRva :: u32
  IddIatSize :: u32
  IddImportRva :: u32
  IddImportSize :: u32
  NumberOfSections :: nat
  sectionTable :: "SectionHeader list"

record RelocBlock =
  blockVirtualAddress :: u32
  SizeOfBlock :: u32
  relocData :: "u16 list"

record PeFile =
  addressOfPeHeader :: u32
  peHeader :: PeHeader
  relocDir :: "RelocBlock list"
  fileRelocations :: "RelocBlock list option"

text \<open>
  Modelled from the spec: RewriteBlock.h is missing. The variants are the ones the
  collectors construct: the header's entry point, the header's image base, and a
  section, named by its position in \<open>sectionContents\<close> (the source shares the
  section object; sections are only ever appended to \<open>sectionContents\<close>, so the
  position names the same object). \<open>PeSectionRewriteBlock i None\<close> is
  \<open>PeSectionRewriteBlock(sec)\<close>, the whole section; \<open>PeSectionRewriteBlock i (Some (offset, size))\<close>
  is \<open>PeSectionRewriteBlock(sec, offset, size)\<close>, a subrange.
\<close>

datatype RewriteBlock =
    EntryPointRewriteBlock
  | BaseAddressRewriteBlock
  | PeSectionRewriteBlock nat "(u32 \<times> u32) option"

text \<open>
  The two text sinks. Every message the modelled functions print is one constructor,
  with the values it prints; the error kinds carry the names the specification gives
  them.
\<close>

datatype info =
    PreparingHeader
  | StrippedDynamicBase u32 u32
  | LeavingDynamicBaseSet
  | AddedDynamicBase u32 u32
  | ChangedImageBase u32 u32
  | LeavingImageBase u32
  | AppliedRelocations nat u32
  | ClearedRelocTable
  | RewroteHeaderEntrypoint
  | SkippingHeaderEntrypoint
  | AddedFixupBase
  | RewroteSection string u32
  | NoSectionNamed string
  | SkippingImports
  | ObfuscatingImports
  | NoIat
  | RewroteIat u32 u32
  | NoImportTable
  | RewroteImportTable u32 u32
  | NoHintsNames
  | RewroteHintsNames u32 u32
  | ObfuscatingMatches string
  | MatchAt string nat
  | GeneratingOutput
  | AppliedAllRewrites
  | GeneratedRelocTable nat
  | UpdatedRelocMetaData
  | ValidatedHeader
  | InjectingStub
  | RepurposedSection string string
  | InjectedSection string
  | SectionLayout u32 u32 u32 u32
  | StubSection u32 u32
  | EntryPointUpdated
  | WroteMzHeader
  | WrotePeHeader
  | WroteSectionTable
  | WroteSectionContents

datatype error =
    SectionsNotLoaded
  | AslrRequired
  | ReadRelocDirFailed
  | RelocNoContainingSection u32
  | OutOfRangeFieldRead
  | UnknownRelocType u16
  | RewritePreconditionViolated
  | RelocTableNonEmpty
  | RelocSectionMissing
  | StubPreparationFailed

text \<open>
  What \<open>writeOutputFile\<close> writes to the file named \<open>outputFileName\<close>: the PE header
  with its section table, at the offset the MZ header gives, and the buffer of every
  section written with \<open>writeSectionData\<close>, under the index it is written to.
\<close>

record OutputFile =
  outAddressOfPeHeader :: u32
  outPeHeader :: PeHeader
  outSectionData :: "(nat \<times> u8 list) list"

text \<open>
  The recompiler itself. \<open>sectionPool\<close> holds positions in \<open>sectionContents\<close>; no
  function of the source ever adds to it.
\<close>

record PeRecompiler =
  infoStream :: "info list"
  errorStream :: "error list"
  peFile :: "PeFile option"
  sectionContents :: "PeSectionContents list"
  sectionPool :: "nat list"
  rewriteBlocks :: "RewriteBlock list"
  multiPass :: bool
  shouldUseWin10Attack :: bool
  outputFile :: "OutputFile option"

definition logInfo :: "info list \<Rightarrow> PeRecompiler \<Rightarrow> PeRecompiler" where
  "logInfo ms st = st\<lparr>infoStream := infoStream st @ ms\<rparr>"

definition logError :: "error \<Rightarrow> PeRecompiler \<Rightarrow> PeRecompiler" where
  "logError e st = st\<lparr>errorStream := errorStream st @ [e]\<rparr>"

section \<open>Reading and writing 32-bit values in a section buffer\<close>

text \<open>
  Modelled from the spec: VectorUtils.h (\<open>getData\<close>, \<open>putData\<close>) is missing. The
  specification says: read the 32-bit little-endian value at the section-relative
  offset; the read fails only when it is out of range.
\<close>

definition le32 :: "u8 list \<Rightarrow> u32" where
  "le32 bs = foldr (\<lambda>b v. ucast b OR push_bit 8 v) bs 0"

definition bytes32 :: "u32 \<Rightarrow> u8 list" where
  "bytes32 v = [ucast v, ucast (drop_bit 8 v), ucast (drop_bit 16 v), ucast (drop_bit 24 v)]"

definition getData :: "u8 list \<Rightarrow> u32 \<Rightarrow> u32 option" where
  "getData d off =
     (if unat off + 4 \<le> length d then Some (le32 (take 4 (drop (unat off) d))) else None)"

definition putData :: "u8 list \<Rightarrow> u32 \<Rightarrow> u32 \<Rightarrow> u8 list" where
  "putData d off v =
     (if unat off + 4 \<le> length d
      then take (unat off) d @ bytes32 v @ drop (unat off + 4) d else d)"

section \<open>getSectionByRVA (lines 649-662)\<close>

fun firstSection :: "PeSectionContents list \<Rightarrow> u32 \<Rightarrow> u32 \<Rightarrow> nat option" where
  "firstSection [] rva sz = None"
| "firstSection (sec # rest) rva sz =
     (if rva < RVA sec \<or> rva \<ge> RVA sec + rawSize sec \<or> rva + sz > RVA sec + rawSize sec
      then map_option Suc (firstSection rest rva sz)
      else Some 0)"

definition getSectionByRVA :: "PeSectionContents list \<Rightarrow> u32 \<Rightarrow> u32 \<Rightarrow> nat option" where
  "getSectionByRVA scs rva sz = (if rva = 0 \<or> sz = 0 then None else firstSection scs rva sz)"

section \<open>performOnDiskRelocations (lines 170-292)\<close>

text \<open>Lines 205-224: the DllCharacteristics of the header, and the message printed.\<close>

definition prepareCharacteristics :: "bool \<Rightarrow> PeHeader \<Rightarrow> PeHeader \<times> info" where
  "prepareCharacteristics win10 h =
     (let characteristics = (ucast (DllCharacteristics h) :: u32) in
      if \<not> win10 then
        (let newCharacteristics = characteristics AND NOT IMAGE_DLLCHARACTERISTICS_DYNAMIC_BASE
         in (h\<lparr>DllCharacteristics := ucast newCharacteristics\<rparr>,
             StrippedDynamicBase characteristics newCharacteristics))
      else if characteristics AND IMAGE_DLLCHARACTERISTICS_DYNAMIC_BASE \<noteq> 0 then
        (h, LeavingDynamicBaseSet)
      else
        (let newCharacteristics = characteristics AND IMAGE_DLLCHARACTERISTICS_DYNAMIC_BASE
         in (h\<lparr>DllCharacteristics := ucast newCharacteristics\<rparr>,
             AddedDynamicBase characteristics newCharacteristics)))"

text \<open>Lines 227-235: the ImageBase of the header.\<close>

definition prepareImageBase :: "bool \<Rightarrow> u32 \<Rightarrow> PeHeader \<Rightarrow> PeHeader \<times> info" where
  "prepareImageBase win10 requestedBase h =
     (if \<not> win10 then
        (h\<lparr>ImageBase := TRICKY_BASE_ADDRESS\<rparr>, ChangedImageBase TRICKY_BASE_ADDRESS requestedBase)
      else (h, LeavingImageBase requestedBase))"

text \<open>
  Lines 255-279: the entries of one block, applied to the buffer of the section that
  holds the block. The result is the error that stopped the loop, if any, and the
  buffer as the loop left it.
\<close>

fun relocateEntries :: "u32 \<Rightarrow> u32 \<Rightarrow> u32 \<Rightarrow> u16 list \<Rightarrow> u8 list \<Rightarrow> error option \<times> u8 list" where
  "relocateEntries relocDelta relocBlockRVA scRVA [] d = (None, d)"
| "relocateEntries relocDelta relocBlockRVA scRVA (entry # rest) d =
     (let entryType = drop_bit 12 entry;
          entryAddress = relocBlockRVA + ucast (entry AND 0x0FFF);
          si = entryAddress - scRVA
      in if entryType AND IMAGE_REL_BASED_HIGHLOW \<noteq> 0 then
           (case getData d si of
              None \<Rightarrow> (Some OutOfRangeFieldRead, d)
            | Some original \<Rightarrow>
                relocateEntries relocDelta relocBlockRVA scRVA rest
                  (putData d si (original + relocDelta)))
         else if entryType \<noteq> 0 then (Some (UnknownRelocType entryType), d)
         else relocateEntries relocDelta relocBlockRVA scRVA rest d)"

text \<open>Lines 243-280: the blocks of the relocation directory, in order.\<close>

fun relocateBlocks ::
  "u32 \<Rightarrow> RelocBlock list \<Rightarrow> PeSectionContents list \<Rightarrow> error option \<times> PeSectionContents list" where
  "relocateBlocks relocDelta [] scs = (None, scs)"
| "relocateBlocks relocDelta (b # rest) scs =
     (let relocBlockRVA = blockVirtualAddress b in
      case getSectionByRVA scs relocBlockRVA 4 of
        None \<Rightarrow> (Some (RelocNoContainingSection relocBlockRVA), scs)
      | Some i \<Rightarrow>
          (case relocateEntries relocDelta relocBlockRVA (RVA (scs ! i)) (relocData b) (data (scs ! i)) of
             (Some e, d') \<Rightarrow> (Some e, scs[i := (scs ! i)\<lparr>data := d'\<rparr>])
           | (None, d') \<Rightarrow> relocateBlocks relocDelta rest (scs[i := (scs ! i)\<lparr>data := d'\<rparr>])))"

text \<open>Lines 286-287: \<open>removeRelocation(0)\<close> until the directory is empty.\<close>

fun clearRelocations :: "RelocBlock list \<Rightarrow> RelocBlock list" where
  "clearRelocations [] = []"
| "clearRelocations (b # rest) = clearRelocations rest"

definition performOnDiskRelocations :: "PeRecompiler \<Rightarrow> bool \<times> PeRecompiler" where
  "performOnDiskRelocations st =
     (case peFile st of
        None \<Rightarrow> (False, st)
      | Some pf \<Rightarrow>
          if sectionContents st = [] then (False, logError SectionsNotLoaded st)
          else
            (let characteristics = (ucast (DllCharacteristics (peHeader pf)) :: u32);
                 requestedBase = ImageBase (peHeader pf)
             in if characteristics AND IMAGE_DLLCHARACTERISTICS_DYNAMIC_BASE
                     \<noteq> IMAGE_DLLCHARACTERISTICS_DYNAMIC_BASE
                then (False, logError AslrRequired st)
                else
                  (case fileRelocations pf of
                     None \<Rightarrow> (False, logError ReadRelocDirFailed st)
                   | Some reloc \<Rightarrow>
                       (let (h1, m1) = prepareCharacteristics (shouldUseWin10Attack st) (peHeader pf);
                            (h2, m2) = prepareImageBase (shouldUseWin10Attack st) requestedBase h1;
                            relocDelta = ACTUALIZED_BASE_ADDRESS - requestedBase;
                            st1 = logInfo [PreparingHeader, m1, m2]
                                    (st\<lparr>peFile := Some (pf\<lparr>peHeader := h2, relocDir := reloc\<rparr>)\<rparr>)
                        in case relocateBlocks relocDelta reloc (sectionContents st) of
                             (Some e, scs) \<Rightarrow> (False, logError e (st1\<lparr>sectionContents := scs\<rparr>))
                           | (None, scs) \<Rightarrow>
                               (True,
                                logInfo [AppliedRelocations (sum_list (map (\<lambda>b. length (relocData b)) reloc)) relocDelta,
                                         ClearedRelocTable]
                                  (st1\<lparr>sectionContents := scs,
                                       peFile := Some (pf\<lparr>peHeader := h2,
                                                          relocDir := clearRelocations reloc\<rparr>)\<rparr>))))))"

section \<open>doRewriteReadyCheck (lines 626-647)\<close>

definition doRewriteReadyCheck :: "PeRecompiler \<Rightarrow> bool \<times> PeRecompiler" where
  "doRewriteReadyCheck st =
     (case peFile st of
        None \<Rightarrow> (False, st)
      | Some pf \<Rightarrow>
          if sectionContents st = [] then (False, logError SectionsNotLoaded st)
          else if (relocDir pf \<noteq> [] \<or> ImageBase (peHeader pf) \<noteq> TRICKY_BASE_ADDRESS)
                  \<and> \<not> shouldUseWin10Attack st
          then (False, logError RewritePreconditionViolated st)
          else (True, st))"

section \<open>The rewrite collectors (lines 52-71 and 294-426)\<close>

text \<open>
  \<open>addRewriteBlock\<close> (lines 52-71). \<open>getNextMultiPassBlock\<close> belongs to the missing
  RewriteBlock.h and the specification leaves its result open, so it is a parameter
  \<open>nextPass\<close> of the model. The source asks the newest block for its successor until
  there is none; nothing bounds that loop, so it is a partial function and \<open>None\<close>
  stands for a loop that never ends.
\<close>

partial_function (option) multiPassBlocks ::
  "(RewriteBlock \<Rightarrow> nat \<Rightarrow> RewriteBlock option) \<Rightarrow> RewriteBlock \<Rightarrow> nat \<Rightarrow> RewriteBlock list
     \<Rightarrow> RewriteBlock list option" where
  "multiPassBlocks nextPass newptr count blocks =
     (case nextPass newptr count of
        None \<Rightarrow> Some blocks
      | Some b \<Rightarrow> multiPassBlocks nextPass b (count + 1) (blocks @ [b]))"

declare multiPassBlocks.simps [code]

definition addRewriteBlock ::
  "(RewriteBlock \<Rightarrow> nat \<Rightarrow> RewriteBlock option) \<Rightarrow> RewriteBlock \<Rightarrow> PeRecompiler
     \<Rightarrow> PeRecompiler option" where
  "addRewriteBlock nextPass block st =
     (if multiPass st then
        map_option (\<lambda>blocks. st\<lparr>rewriteBlocks := blocks\<rparr>)
          (multiPassBlocks nextPass block 0 (rewriteBlocks st @ [block]))
      else Some (st\<lparr>rewriteBlocks := rewriteBlocks st @ [block]\<rparr>))"

text \<open>\<open>rewriteHeader\<close> (lines 294-309).\<close>

definition rewriteHeader ::
  "(RewriteBlock \<Rightarrow> nat \<Rightarrow> RewriteBlock option) \<Rightarrow> PeRecompiler \<Rightarrow> (bool \<times> PeRecompiler) option" where
  "rewriteHeader nextPass st =
     (case doRewriteReadyCheck st of
        (False, st1) \<Rightarrow> Some (False, st1)
      | (True, st1) \<Rightarrow>
          if \<not> shouldUseWin10Attack st1 then
            map_option (\<lambda>st2. (True, logInfo [RewroteHeaderEntrypoint] st2))
              (addRewriteBlock nextPass EntryPointRewriteBlock st1)
          else Some (True, logInfo [SkippingHeaderEntrypoint] st1))"

text \<open>\<open>fixupBase\<close> (lines 311-320).\<close>

definition fixupBase ::
  "(RewriteBlock \<Rightarrow> nat \<Rightarrow> RewriteBlock option) \<Rightarrow> PeRecompiler \<Rightarrow> (bool \<times> PeRecompiler) option" where
  "fixupBase nextPass st =
     (case doRewriteReadyCheck st of
        (False, st1) \<Rightarrow> Some (False, st1)
      | (True, st1) \<Rightarrow>
          map_option (\<lambda>st2. (True, logInfo [AddedFixupBase] st2))
            (addRewriteBlock nextPass BaseAddressRewriteBlock st1))"

text \<open>\<open>rewriteSection\<close> (lines 322-340): the first section of that name, if any.\<close>

fun findSectionNamed :: "PeSectionContents list \<Rightarrow> string \<Rightarrow> nat option" where
  "findSectionNamed [] nm = None"
| "findSectionNamed (sec # rest) nm =
     (if name sec = nm then Some 0 else map_option Suc (findSectionNamed rest nm))"

definition rewriteSection ::
  "(RewriteBlock \<Rightarrow> nat \<Rightarrow> RewriteBlock option) \<Rightarrow> string \<Rightarrow> PeRecompiler
     \<Rightarrow> (bool \<times> PeRecompiler) option" where
  "rewriteSection nextPass nm st =
     (case doRewriteReadyCheck st of
        (False, st1) \<Rightarrow> Some (False, st1)
      | (True, st1) \<Rightarrow>
          (case findSectionNamed (sectionContents st1) nm of
             Some i \<Rightarrow>
               map_option (\<lambda>st2. (True, logInfo [RewroteSection nm (RVA (sectionContents st1 ! i))] st2))
                 (addRewriteBlock nextPass (PeSectionRewriteBlock i None) st1)
           | None \<Rightarrow> Some (True, logInfo [NoSectionNamed nm] st1)))"

text \<open>\<open>rewriteSubsectionByRVA\<close> (lines 742-749).\<close>

definition rewriteSubsectionByRVA ::
  "(RewriteBlock \<Rightarrow> nat \<Rightarrow> RewriteBlock option) \<Rightarrow> u32 \<Rightarrow> u32 \<Rightarrow> PeRecompiler
     \<Rightarrow> (bool \<times> PeRecompiler) option" where
  "rewriteSubsectionByRVA nextPass rva sz st =
     (case getSectionByRVA (sectionContents st) rva sz of
        None \<Rightarrow> Some (False, st)
      | Some i \<Rightarrow>
          map_option (\<lambda>st1. (True, st1))
            (addRewriteBlock nextPass
               (PeSectionRewriteBlock i (Some (rva - RVA (sectionContents st ! i), sz))) st))"

text \<open>
  \<open>rewriteImports\<close> (lines 342-398). The scan of the IAT (lines 379-389) steps a
  32-bit offset by 4 until it passes \<open>iatOffset + iatSize\<close> or a read fails; the
  arithmetic wraps, so the scan is a partial function as well.
\<close>

partial_function (option) scanIat ::
  "u8 list \<Rightarrow> u32 \<Rightarrow> u32 \<Rightarrow> u32 \<Rightarrow> u32 \<Rightarrow> (u32 \<times> u32) option" where
  "scanIat d bound imp lowestNameRVA highestNameRVA =
     (if imp < bound then
        (case getData d imp of
           None \<Rightarrow> Some (lowestNameRVA, highestNameRVA)
         | Some temp \<Rightarrow>
             if temp = 0 then scanIat d bound (imp + 4) lowestNameRVA highestNameRVA
             else if temp < lowestNameRVA then scanIat d bound (imp + 4) temp highestNameRVA
             else if temp > highestNameRVA then scanIat d bound (imp + 4) lowestNameRVA temp
             else scanIat d bound (imp + 4) lowestNameRVA highestNameRVA)
      else Some (lowestNameRVA, highestNameRVA))"

declare scanIat.simps [code]

definition rewriteImports ::
  "(RewriteBlock \<Rightarrow> nat \<Rightarrow> RewriteBlock option) \<Rightarrow> PeRecompiler \<Rightarrow> (bool \<times> PeRecompiler) option" where
  "rewriteImports nextPass st =
     (case doRewriteReadyCheck st of
        (False, st1) \<Rightarrow> Some (False, st1)
      | (True, st1) \<Rightarrow>
          if shouldUseWin10Attack st1 then Some (True, logInfo [SkippingImports] st1)
          else
            (case peFile st1 of
               None \<Rightarrow> Some (False, st1)
             | Some pf \<Rightarrow>
                 (let iatRVA = IddIatRva (peHeader pf);
                      iatSize = IddIatSize (peHeader pf);
                      importRVA = IddImportRva (peHeader pf);
                      importSize = IddImportSize (peHeader pf)
                  in case rewriteSubsectionByRVA nextPass iatRVA iatSize (logInfo [ObfuscatingImports] st1) of
                       None \<Rightarrow> None
                     | Some (r1, st2) \<Rightarrow>
                         (case rewriteSubsectionByRVA nextPass importRVA importSize
                                 (logInfo [if \<not> r1 then NoIat else RewroteIat iatRVA (iatRVA + iatSize)] st2) of
                            None \<Rightarrow> None
                          | Some (r2, st3) \<Rightarrow>
                              (let st4 = logInfo [if \<not> r2 then NoImportTable
                                                   else RewroteImportTable importRVA (importRVA + importSize)] st3
                               in case getSectionByRVA (sectionContents st4) iatRVA iatSize of
                                    None \<Rightarrow> Some (True, st4)
                                  | Some i \<Rightarrow>
                                      (let iatSec = sectionContents st4 ! i;
                                           iatOffset = iatRVA - RVA iatSec
                                       in case scanIat (data iatSec) (iatOffset + iatSize) iatOffset 0xFFFFFFFF 0 of
                                            None \<Rightarrow> None
                                          | Some (lowestNameRVA, highestNameRVA) \<Rightarrow>
                                              (case rewriteSubsectionByRVA nextPass lowestNameRVA
                                                      (highestNameRVA - lowestNameRVA) st4 of
                                                 None \<Rightarrow> None
                                               | Some (r3, st5) \<Rightarrow>
                                                   Some (True,
                                                     logInfo [if \<not> r3 then NoHintsNames
                                                              else RewroteHintsNames lowestNameRVA highestNameRVA]
                                                       st5))))))))"

text \<open>
  \<open>rewriteMatches\<close> (lines 400-426). \<open>searchMatches needle chunk i\<close> lists the
  positions at which \<open>std::search\<close> finds the needle when it resumes one past each hit:
  every position of the buffer at which the needle starts.
\<close>

fun searchMatches :: "u8 list \<Rightarrow> u8 list \<Rightarrow> nat \<Rightarrow> nat list" where
  "searchMatches needle [] i = []"
| "searchMatches needle (c # cs) i =
     (if take (length needle) (c # cs) = needle
      then i # searchMatches needle cs (i + 1)
      else searchMatches needle cs (i + 1))"

fun addMatchBlocks ::
  "(RewriteBlock \<Rightarrow> nat \<Rightarrow> RewriteBlock option) \<Rightarrow> nat \<Rightarrow> nat \<Rightarrow> nat list \<Rightarrow> PeRecompiler
     \<Rightarrow> PeRecompiler option" where
  "addMatchBlocks nextPass sec len [] st = Some st"
| "addMatchBlocks nextPass sec len (i # rest) st =
     (case addRewriteBlock nextPass (PeSectionRewriteBlock sec (Some (of_nat i, of_nat (len + 1))))
             (logInfo [MatchAt (name (sectionContents st ! sec)) i] st) of
        None \<Rightarrow> None
      | Some st1 \<Rightarrow> addMatchBlocks nextPass sec len rest st1)"

fun rewriteMatchesIn ::
  "(RewriteBlock \<Rightarrow> nat \<Rightarrow> RewriteBlock option) \<Rightarrow> string \<Rightarrow> nat list \<Rightarrow> PeRecompiler
     \<Rightarrow> PeRecompiler option" where
  "rewriteMatchesIn nextPass needle [] st = Some st"
| "rewriteMatchesIn nextPass needle (sec # rest) st =
     (case addMatchBlocks nextPass sec (length needle)
             (searchMatches (map of_char needle) (data (sectionContents st ! sec)) 0) st of
        None \<Rightarrow> None
      | Some st1 \<Rightarrow> rewriteMatchesIn nextPass needle rest st1)"

definition rewriteMatches ::
  "(RewriteBlock \<Rightarrow> nat \<Rightarrow> RewriteBlock option) \<Rightarrow> string \<Rightarrow> PeRecompiler
     \<Rightarrow> (bool \<times> PeRecompiler) option" where
  "rewriteMatches nextPass needle st =
     (case doRewriteReadyCheck st of
        (False, st1) \<Rightarrow> Some (False, st1)
      | (True, st1) \<Rightarrow>
          map_option (\<lambda>st2. (True, st2))
            (rewriteMatchesIn nextPass needle [0 ..< length (sectionContents st1)]
               (logInfo [ObfuscatingMatches needle] st1)))"

section \<open>The rewrite block interface\<close>

text \<open>
  Modelled from the spec: RewriteBlock.h is missing. A block describes zero or more
  32-bit locations. \<open>getFirstEntryLoc\<close> gives the RVA and the offset of the earliest
  slot the block covers, \<open>getNextEntryLoc\<close> the slot after the one at \<open>lastOffset\<close>,
  in ascending order, and \<open>decrementEntry\<close> reads the 32-bit little-endian value at
  the offset, subtracts the value given and writes the result back; it fails only when
  the read is out of range.

  A header block covers one slot, the field of the PE header it names: in a PE32 header
  \<open>AddressOfEntryPoint\<close> lies 0x28 bytes and \<open>ImageBase\<close> 0x34 bytes after the start
  of the PE header, and the headers are mapped at RVA 0. A section block covers the
  slots of its range, every \<open>dataSize\<close> bytes from the start of the range while the
  slot starts inside the range (the 6 bytes of scenario S3 give the two slots 0x40 and
  0x44); the range of a whole section is all its raw data.
\<close>

definition sectionRange :: "PeSectionContents \<Rightarrow> (u32 \<times> u32) option \<Rightarrow> u32 \<times> u32" where
  "sectionRange sec r = (case r of None \<Rightarrow> (0, rawSize sec) | Some (off, sz) \<Rightarrow> (off, sz))"

definition getFirstEntryLoc ::
  "PeFile \<Rightarrow> PeSectionContents list \<Rightarrow> RewriteBlock \<Rightarrow> u32 \<Rightarrow> (u32 \<times> u32) option" where
  "getFirstEntryLoc pf scs block dataSize =
     (case block of
        EntryPointRewriteBlock \<Rightarrow> Some (addressOfPeHeader pf + 0x28, 0x28)
      | BaseAddressRewriteBlock \<Rightarrow> Some (addressOfPeHeader pf + 0x34, 0x34)
      | PeSectionRewriteBlock i r \<Rightarrow>
          if i < length scs then
            (let sec = scs ! i; (off, sz) = sectionRange sec r
             in if sz = 0 then None else Some (RVA sec + off, off))
          else None)"

definition getNextEntryLoc ::
  "PeFile \<Rightarrow> PeSectionContents list \<Rightarrow> RewriteBlock \<Rightarrow> u32 \<Rightarrow> u32 \<Rightarrow> (u32 \<times> u32) option" where
  "getNextEntryLoc pf scs block dataSize lastOffset =
     (case block of
        EntryPointRewriteBlock \<Rightarrow> None
      | BaseAddressRewriteBlock \<Rightarrow> None
      | PeSectionRewriteBlock i r \<Rightarrow>
          if i < length scs then
            (let sec = scs ! i; (off, sz) = sectionRange sec r;
                 next = unat lastOffset + unat dataSize
             in if next < unat off + unat sz \<and> next < 2 ^ 32
                then Some (RVA sec + of_nat next, of_nat next) else None)
          else None)"

definition decrementEntry ::
  "PeFile \<Rightarrow> PeSectionContents list \<Rightarrow> RewriteBlock \<Rightarrow> u32 \<Rightarrow> u32
     \<Rightarrow> (PeFile \<times> PeSectionContents list) option" where
  "decrementEntry pf scs block offset v =
     (case block of
        EntryPointRewriteBlock \<Rightarrow>
          Some (pf\<lparr>peHeader := (peHeader pf)
                  \<lparr>AddressOfEntryPoint := AddressOfEntryPoint (peHeader pf) - v\<rparr>\<rparr>, scs)
      | BaseAddressRewriteBlock \<Rightarrow>
          Some (pf\<lparr>peHeader := (peHeader pf)\<lparr>ImageBase := ImageBase (peHeader pf) - v\<rparr>\<rparr>, scs)
      | PeSectionRewriteBlock i r \<Rightarrow>
          if i < length scs then
            (let sec = scs ! i
             in case getData (data sec) offset of
                  None \<Rightarrow> None
                | Some cur \<Rightarrow> Some (pf, scs[i := sec\<lparr>data := putData (data sec) offset (cur - v)\<rparr>]))
          else None)"

section \<open>writeOutputFile (lines 429-623)\<close>

text \<open>Lines 459-470: the packed block and the constants of the packing loop.\<close>

record PackedBlock =
  beginRVA :: u32
  offsets :: "u16 list"

definition dataSize :: u32 where
  "dataSize = 4"

definition chunkSize :: u32 where
  "chunkSize = 1024 * dataSize"

lemma unat_u32_bound: "unat (x::u32) < 2 ^ 32"
  using unsigned_less [of x] by simp

lemma unat_plus4: "unat (x::u32) < 4294967292 \<Longrightarrow> unat (x + 4) = unat x + 4"
  by (simp add: unat_word_ariths)

lemma getNextEntryLoc_grows:
  "getNextEntryLoc pf scs block dataSize lastOffset = Some (rva, off)
     \<Longrightarrow> unat off = unat lastOffset + 4"
  by (auto simp: getNextEntryLoc_def dataSize_def Let_def unat_plus4
           split: RewriteBlock.splits if_splits prod.splits)

lemma getNextEntryLoc_measure:
  "getNextEntryLoc pf scs block dataSize lastOffset = Some (rva, off)
     \<Longrightarrow> (2::nat) ^ 32 - unat off < 2 ^ 32 - unat lastOffset"
  using getNextEntryLoc_grows [of pf scs block lastOffset rva off] unat_u32_bound [of off]
  by simp

text \<open>
  Lines 487-496: the offset of the slot at \<open>rva\<close> is recorded in the front block, or
  in a new front block when it does not fit. \<open>packedBlock\<close> is the front of the list
  \<open>packedBlocks\<close> and \<open>rest\<close> what follows it; \<open>push_front\<close> moves the front to
  the rest.
\<close>

definition recordOffset :: "u32 \<Rightarrow> PackedBlock \<Rightarrow> PackedBlock list \<Rightarrow> PackedBlock \<times> PackedBlock list" where
  "recordOffset rva packedBlock rest =
     (let rvaOffset = (ucast (rva - beginRVA packedBlock) :: u16)
      in if (ucast rvaOffset :: u32) \<ge> chunkSize
         then (\<lparr>beginRVA = rva, offsets = [0]\<rparr>, packedBlock # rest)
         else (packedBlock\<lparr>offsets := offsets packedBlock @ [rvaOffset]\<rparr>, rest))"

text \<open>Lines 482-498: the do-while loop over the slots of one rewrite block.\<close>

function applyEntries ::
  "u32 \<Rightarrow> RewriteBlock \<Rightarrow> u32 \<Rightarrow> u32 \<Rightarrow> PeFile \<Rightarrow> PeSectionContents list \<Rightarrow> PackedBlock
     \<Rightarrow> PackedBlock list \<Rightarrow> PeFile \<times> PeSectionContents list \<times> PackedBlock list" where
  "applyEntries packDelta block rva offset pf scs packedBlock rest =
     (case decrementEntry pf scs block offset packDelta of
        None \<Rightarrow> (pf, scs, packedBlock # rest)
      | Some (pf1, scs1) \<Rightarrow>
          (case recordOffset rva packedBlock rest of
             (front, rest1) \<Rightarrow>
               (case getNextEntryLoc pf1 scs1 block dataSize offset of
                  None \<Rightarrow> (pf1, scs1, front # rest1)
                | Some (rva1, offset1) \<Rightarrow> applyEntries packDelta block rva1 offset1 pf1 scs1 front rest1)))"
  by pat_completeness auto
termination
  by (relation "measure (\<lambda>(packDelta, block, rva, offset, pf, scs, packedBlock, rest). 2 ^ 32 - unat offset)")
     (auto dest!: getNextEntryLoc_measure)

declare applyEntries.simps [simp del]

text \<open>
  Lines 471-499: the rewrite blocks, in the order of the list. No function of the
  source puts a null block in the list, so the test for one is left out.
\<close>

fun applyRewrites ::
  "u32 \<Rightarrow> RewriteBlock list \<Rightarrow> PeFile \<Rightarrow> PeSectionContents list \<Rightarrow> PackedBlock list
     \<Rightarrow> PeFile \<times> PeSectionContents list \<times> PackedBlock list" where
  "applyRewrites packDelta [] pf scs packedBlocks = (pf, scs, packedBlocks)"
| "applyRewrites packDelta (block # blocks) pf scs packedBlocks =
     (case getFirstEntryLoc pf scs block dataSize of
        None \<Rightarrow> applyRewrites packDelta blocks pf scs packedBlocks
      | Some (rva, offset) \<Rightarrow>
          (case applyEntries packDelta block rva offset pf scs \<lparr>beginRVA = rva, offsets = []\<rparr> packedBlocks of
             (pf1, scs1, packedBlocks1) \<Rightarrow> applyRewrites packDelta blocks pf1 scs1 packedBlocks1))"

text \<open>Lines 517-535: the relocation block generated for one packed block.\<close>

definition packRelocation :: "PackedBlock \<Rightarrow> RelocBlock" where
  "packRelocation packedBlock =
     (let entries = map (\<lambda>offset. push_bit 12 IMAGE_REL_BASED_HIGHLOW OR (offset AND 0x0FFF))
                        (offsets packedBlock);
          relocSize = (of_nat (length (offsets packedBlock)) * 2 + 8 :: u32)
      in if length (offsets packedBlock) mod 2 = 1
         then \<lparr>blockVirtualAddress = beginRVA packedBlock, SizeOfBlock = relocSize + 2,
               relocData = entries @ [0]\<rparr>
         else \<lparr>blockVirtualAddress = beginRVA packedBlock, SizeOfBlock = relocSize,
               relocData = entries\<rparr>)"

text \<open>Lines 513-536: one relocation block per packed block, added at the end.\<close>

fun generateRelocs :: "PackedBlock list \<Rightarrow> RelocBlock list \<Rightarrow> RelocBlock list" where
  "generateRelocs [] reloc = reloc"
| "generateRelocs (packedBlock # rest) reloc = generateRelocs rest (reloc @ [packRelocation packedBlock])"

text \<open>
  Modelled from the spec: PeLib is missing. \<open>rebuild\<close> writes the directory as the
  loader reads it, for each block the 8 bytes of its header and its entries as 16-bit
  little-endian values. \<open>makeValid\<close> recomputes the dependent fields of the header;
  of the fields modelled here that is the section count. \<open>addSection\<close> appends a
  section header of the given name and virtual size; where PeLib places the section
  (its virtual address, raw size and raw pointer) is the parameter \<open>layout\<close>.
\<close>

definition bytes16 :: "u16 \<Rightarrow> u8 list" where
  "bytes16 v = [ucast v, ucast (drop_bit 8 v)]"

definition rebuild :: "RelocBlock list \<Rightarrow> u8 list" where
  "rebuild reloc =
     concat (map (\<lambda>b. bytes32 (blockVirtualAddress b) @ bytes32 (SizeOfBlock b)
                        @ concat (map bytes16 (relocData b))) reloc)"

definition makeValid :: "PeHeader \<Rightarrow> PeHeader" where
  "makeValid h = h\<lparr>NumberOfSections := length (sectionTable h)\<rparr>"

definition addSection :: "(PeHeader \<Rightarrow> u32 \<Rightarrow> u32 \<times> u32 \<times> u32) \<Rightarrow> PeHeader \<Rightarrow> string \<Rightarrow> u32 \<Rightarrow> PeHeader" where
  "addSection layout h nm sz =
     (case layout h sz of
        (va, rawSz, rawPtr) \<Rightarrow>
          h\<lparr>sectionTable := sectionTable h @
              [\<lparr>SectionName = nm, VirtualSize = sz, VirtualAddress = va, SizeOfRawData = rawSz,
                PointerToRawData = rawPtr, Characteristics = 0\<rparr>]\<rparr>)"

definition updSection :: "nat \<Rightarrow> (SectionHeader \<Rightarrow> SectionHeader) \<Rightarrow> PeHeader \<Rightarrow> PeHeader" where
  "updSection i f h = h\<lparr>sectionTable := (sectionTable h)[i := f (sectionTable h ! i)]\<rparr>"

text \<open>Lines 557-558: zero bytes up to the next multiple of 512.\<close>

function padTo512 :: "u8 list \<Rightarrow> u8 list" where
  "padTo512 d = (if length d mod 512 \<noteq> 0 then padTo512 (d @ [0]) else d)"
  by pat_completeness auto
termination
  by (relation "measure (\<lambda>d. (512 - length d mod 512) mod 512)") (auto simp: mod_Suc)

text \<open>Lines 553-559: the rebuilt directory replaces the buffer of the relocation section.\<close>

definition embedRelocs ::
  "RelocBlock list \<Rightarrow> nat \<Rightarrow> PeHeader \<Rightarrow> PeSectionContents list \<Rightarrow> PeHeader \<times> PeSectionContents list" where
  "embedRelocs reloc i h scs =
     (let relocSec = scs ! i;
          d = rebuild reloc;
          h1 = updSection (index relocSec) (\<lambda>s. s\<lparr>VirtualSize := of_nat (length d)\<rparr>) h;
          h2 = h1\<lparr>IddBaseRelocSize := of_nat (length d)\<rparr>;
          d1 = padTo512 d;
          h3 = updSection (index relocSec) (\<lambda>s. s\<lparr>SizeOfRawData := of_nat (length d1)\<rparr>) h2
      in (h3, scs[i := relocSec\<lparr>data := d1\<rparr>]))"

section \<open>allocSection (lines 664-740)\<close>

text \<open>Lines 693-705: the first section of the pool that can be reused.\<close>

fun findReusable :: "PeSectionContents list \<Rightarrow> u32 \<Rightarrow> int \<Rightarrow> nat list \<Rightarrow> nat option" where
  "findReusable scs sz finalSecIndex [] = None"
| "findReusable scs sz finalSecIndex (p # pool) =
     (if rawSize (scs ! p) > sz \<or> int (index (scs ! p)) = finalSecIndex then Some p
      else findReusable scs sz finalSecIndex pool)"

definition allocSection ::
  "(PeHeader \<Rightarrow> u32 \<Rightarrow> u32 \<times> u32 \<times> u32) \<Rightarrow> string \<Rightarrow> u32 \<Rightarrow> u32 \<Rightarrow> PeHeader
     \<Rightarrow> PeSectionContents list \<Rightarrow> nat list
     \<Rightarrow> nat \<times> PeHeader \<times> PeSectionContents list \<times> nat list \<times> info list" where
  "allocSection layout nm sz access h scs pool =
     (let finalSecIndex = int (NumberOfSections h) - 1;
          (newSec, h1, scs1, pool1, msgs) =
            (case findReusable scs sz finalSecIndex pool of
               Some p \<Rightarrow>
                 (let sec = scs ! p;
                      ha = updSection (index sec) (\<lambda>s. s\<lparr>SectionName := nm\<rparr>) h;
                      hb = updSection (index sec) (\<lambda>s. s\<lparr>VirtualSize := sz\<rparr>) ha;
                      hc = updSection (index sec) (\<lambda>s. s\<lparr>SizeOfRawData := sz\<rparr>) hb
                  in (p, hc, scs, removeAll p pool, [RepurposedSection (name sec) nm]))
             | None \<Rightarrow>
                 (let ha = makeValid (addSection layout h nm sz);
                      sec = \<lparr>index = NumberOfSections ha - 1, RVA = 0, rawSize = 0, rawPointer = 0,
                             virtualSize = 0, name = [], data = []\<rparr>
                  in (length scs, ha, scs @ [sec], pool, [InjectedSection nm])));
          i = index (scs1 ! newSec);
          h2 = updSection i (\<lambda>s. s\<lparr>Characteristics := access\<rparr>) h1;
          sh = sectionTable h2 ! i;
          sec1 = (scs1 ! newSec)\<lparr>RVA := VirtualAddress sh, rawSize := SizeOfRawData sh,
                    rawPointer := PointerToRawData sh, virtualSize := VirtualSize sh,
                    name := SectionName sh\<rparr>
      in (newSec, h2, scs1[newSec := sec1], pool1,
          msgs @ [SectionLayout (virtualSize sec1) (RVA sec1) (rawSize sec1) (rawPointer sec1)]))"

text \<open>
  Lines 568-601: the preselection stub. \<open>prepareStub\<close> belongs to the missing
  ASLRPreselectionStub.h; the specification treats it as a black box from the original
  entry point to the bytes of the stub, so it is a parameter (\<open>None\<close>: it fails).
  Modelled from the spec: \<open>pushBytes\<close> of the missing VectorUtils.h writes the bytes
  at the end of the buffer.
\<close>

definition stubAccess :: u32 where
  "stubAccess = 0x20000000 OR 0x80000000 OR 0x40000000 OR 0x00000040 OR 0x00000020"

definition injectStub ::
  "(u32 \<Rightarrow> u8 list option) \<Rightarrow> (PeHeader \<Rightarrow> u32 \<Rightarrow> u32 \<times> u32 \<times> u32) \<Rightarrow> PeHeader
     \<Rightarrow> PeSectionContents list \<Rightarrow> nat list
     \<Rightarrow> (PeHeader \<times> PeSectionContents list \<times> nat list \<times> info list) option" where
  "injectStub prepareStub layout h scs pool =
     (let originalEntrypoint = AddressOfEntryPoint h in
      case prepareStub originalEntrypoint of
        None \<Rightarrow> None
      | Some stub \<Rightarrow>
          (let stubLen = (of_nat (length stub) :: u32) in
           case allocSection layout ''.presel'' stubLen stubAccess h scs pool of
             (sc, h1, scs1, pool1, msgs) \<Rightarrow>
               (let h2 = addSection layout h1 ''.presel'' stubLen;
                    h3 = h2\<lparr>AddressOfEntryPoint := RVA (scs1 ! sc)\<rparr>
                in Some (h3, scs1[sc := (scs1 ! sc)\<lparr>data := data (scs1 ! sc) @ stub\<rparr>], pool1,
                         msgs @ [StubSection originalEntrypoint (RVA (scs1 ! sc)), EntryPointUpdated]))))"

text \<open>Lines 603-620: what is written to the output file.\<close>

definition writeFile :: "PeFile \<Rightarrow> PeSectionContents list \<Rightarrow> OutputFile" where
  "writeFile pf scs =
     \<lparr>outAddressOfPeHeader = addressOfPeHeader pf, outPeHeader = peHeader pf,
      outSectionData = map (\<lambda>sec. (index sec, data sec)) (filter (\<lambda>sec. rawSize sec \<noteq> 0) scs)\<rparr>"

text \<open>Lines 546-622: the new directory is embedded, the stub injected, the file written.\<close>

definition embedAndWrite ::
  "(u32 \<Rightarrow> u8 list option) \<Rightarrow> (PeHeader \<Rightarrow> u32 \<Rightarrow> u32 \<times> u32 \<times> u32) \<Rightarrow> PeRecompiler
     \<Rightarrow> PeFile \<Rightarrow> PeSectionContents list \<Rightarrow> bool \<times> PeRecompiler" where
  "embedAndWrite prepareStub layout st pf scs =
     (case getSectionByRVA scs (IddBaseRelocRva (peHeader pf)) 4 of
        None \<Rightarrow> (False, logError RelocSectionMissing (st\<lparr>peFile := Some pf, sectionContents := scs\<rparr>))
      | Some i \<Rightarrow>
          (case embedRelocs (relocDir pf) i (peHeader pf) scs of
             (h2, scs2) \<Rightarrow>
               (let h3 = makeValid h2;
                    st3 = logInfo [UpdatedRelocMetaData, ValidatedHeader] st
                in if shouldUseWin10Attack st then
                     (case injectStub prepareStub layout h3 scs2 (sectionPool st) of
                        None \<Rightarrow>
                          (False, logError StubPreparationFailed
                             (logInfo [InjectingStub]
                                (st3\<lparr>peFile := Some (pf\<lparr>peHeader := h3\<rparr>), sectionContents := scs2\<rparr>)))
                      | Some (h4, scs3, pool3, msgs) \<Rightarrow>
                          (True, logInfo ([InjectingStub] @ msgs @
                                    [WroteMzHeader, WrotePeHeader, WroteSectionTable, WroteSectionContents])
                             (st3\<lparr>peFile := Some (pf\<lparr>peHeader := h4\<rparr>), sectionContents := scs3,
                                  sectionPool := pool3,
                                  outputFile := Some (writeFile (pf\<lparr>peHeader := h4\<rparr>) scs3)\<rparr>)))
                   else
                     (True, logInfo [WroteMzHeader, WrotePeHeader, WroteSectionTable, WroteSectionContents]
                        (st3\<lparr>peFile := Some (pf\<lparr>peHeader := h3\<rparr>), sectionContents := scs2,
                             outputFile := Some (writeFile (pf\<lparr>peHeader := h3\<rparr>) scs2)\<rparr>)))))"

definition writeOutputFile ::
  "(u32 \<Rightarrow> u8 list option) \<Rightarrow> (PeHeader \<Rightarrow> u32 \<Rightarrow> u32 \<times> u32 \<times> u32) \<Rightarrow> PeRecompiler
     \<Rightarrow> bool \<times> PeRecompiler" where
  "writeOutputFile prepareStub layout st =
     (case peFile st of
        None \<Rightarrow> (False, st)
      | Some pf \<Rightarrow>
          if sectionContents st = [] then (False, logError SectionsNotLoaded st)
          else
            (let requestedBase = ImageBase (peHeader pf);
                 packDelta = ACTUALIZED_BASE_ADDRESS - requestedBase;
                 st0 = logInfo [GeneratingOutput] st
             in case applyRewrites packDelta (rewriteBlocks st) pf (sectionContents st) [] of
                  (pf1, scs1, packedBlocks) \<Rightarrow>
                    if packedBlocks \<noteq> [] then
                      (if relocDir pf1 \<noteq> [] then
                         (False, logError RelocTableNonEmpty
                                   (logInfo [AppliedAllRewrites]
                                      (st0\<lparr>peFile := Some pf1, sectionContents := scs1\<rparr>)))
                       else
                         embedAndWrite prepareStub layout
                           (logInfo [AppliedAllRewrites, GeneratedRelocTable (length packedBlocks)] st0)
                           (pf1\<lparr>relocDir := generateRelocs packedBlocks (relocDir pf1)\<rparr>) scs1)
                    else embedAndWrite prepareStub layout st0 pf1 scs1))"

section \<open>Scenario S1 of the specification\<close>

text \<open>
  The image of scenario S1: \<open>ImageBase = 0x00400000\<close>, \<open>DYNAMIC_BASE\<close> set, one section
  \<open>.text\<close> at RVA 0x1000 whose bytes at offset 0x10 are the value 0x00401234, and a
  relocation directory of one block for page 0x1000 with one HIGHLOW entry at offset
  0x10 and its pad.
\<close>

definition S1_text :: PeSectionContents where
  "S1_text = \<lparr>index = 0, RVA = 0x1000, rawSize = 0x200, rawPointer = 0x400, virtualSize = 0x200,
     name = ''.text'', data = replicate 16 0 @ [0x34, 0x12, 0x40, 0x00] @ replicate 492 0\<rparr>"

definition S1_header :: PeHeader where
  "S1_header = \<lparr>DllCharacteristics = 0x0040, ImageBase = 0x00400000, AddressOfEntryPoint = 0x1000,
     IddBaseRelocRva = 0, IddBaseRelocSize = 0, IddIatRva = 0, IddIatSize = 0,
     IddImportRva = 0, IddImportSize = 0, NumberOfSections = 1,
     sectionTable = [\<lparr>SectionName = ''.text'', VirtualSize = 0x200, VirtualAddress = 0x1000,
        SizeOfRawData = 0x200, PointerToRawData = 0x400, Characteristics = 0x60000020\<rparr>]\<rparr>"

definition S1_relocs :: "RelocBlock list" where
  "S1_relocs = [\<lparr>blockVirtualAddress = 0x1000, SizeOfBlock = 12, relocData = [0x3010, 0]\<rparr>]"

definition S1 :: PeRecompiler where
  "S1 = \<lparr>infoStream = [], errorStream = [],
     peFile = Some \<lparr>addressOfPeHeader = 0x80, peHeader = S1_header, relocDir = [],
                    fileRelocations = Some S1_relocs\<rparr>,
     sectionContents = [S1_text], sectionPool = [], rewriteBlocks = [], multiPass = False,
     shouldUseWin10Attack = False, outputFile = None\<rparr>"

text \<open>S1 with the Win10 attack selected (scenario S6).\<close>

definition S6 :: PeRecompiler where
  "S6 = S1\<lparr>shouldUseWin10Attack := True\<rparr>"

text \<open>S1 with the Win10 attack selected and a header that lacks \<open>DYNAMIC_BASE\<close>.\<close>

definition S1_no_aslr :: PeRecompiler where
  "S1_no_aslr = S1\<lparr>peFile := Some \<lparr>addressOfPeHeader = 0x80,
      peHeader = S1_header\<lparr>DllCharacteristics := 0x0100\<rparr>,
      relocDir = [], fileRelocations = Some S1_relocs\<rparr>, shouldUseWin10Attack := True\<rparr>"

text \<open>S1 with an entry of type 1 (\<open>IMAGE_REL_BASED_HIGH\<close>) in place of the HIGHLOW entry.\<close>

definition S1_type1 :: PeRecompiler where
  "S1_type1 = S1\<lparr>peFile := Some \<lparr>addressOfPeHeader = 0x80, peHeader = S1_header, relocDir = [],
      fileRelocations = Some [\<lparr>blockVirtualAddress = 0x1000, SizeOfBlock = 12, relocData = [0x1010, 0]\<rparr>]\<rparr>\<rparr>"

lemmas S1_defs = S1_def S1_header_def S1_relocs_def S1_text_def

lemmas rebase_defs = performOnDiskRelocations_def
  getSectionByRVA_def getData_def putData_def le32_def bytes32_def logInfo_def logError_def
  prepareCharacteristics_def prepareImageBase_def TRICKY_BASE_ADDRESS_def ACTUALIZED_BASE_ADDRESS_def
  IMAGE_REL_BASED_HIGHLOW_def IMAGE_DLLCHARACTERISTICS_DYNAMIC_BASE_def Let_def

section \<open>The rebaser and the header\<close>

lemma prepareCharacteristics_msg:
  "ucast (DllCharacteristics h) AND IMAGE_DLLCHARACTERISTICS_DYNAMIC_BASE = IMAGE_DLLCHARACTERISTICS_DYNAMIC_BASE
   \<Longrightarrow> snd (prepareCharacteristics win10 h) \<noteq> AddedDynamicBase c n"
  by (auto simp: prepareCharacteristics_def Let_def IMAGE_DLLCHARACTERISTICS_DYNAMIC_BASE_def)

lemma prepareCharacteristics_win10:
  "ucast (DllCharacteristics h) AND IMAGE_DLLCHARACTERISTICS_DYNAMIC_BASE = IMAGE_DLLCHARACTERISTICS_DYNAMIC_BASE
   \<Longrightarrow> fst (prepareCharacteristics True h) = h"
  by (auto simp: prepareCharacteristics_def Let_def IMAGE_DLLCHARACTERISTICS_DYNAMIC_BASE_def)

lemma prepareImageBase_msg: "snd (prepareImageBase win10 b h) \<noteq> AddedDynamicBase c n"
  by (simp add: prepareImageBase_def)

lemma prepareImageBase_win10:
  "DllCharacteristics (fst (prepareImageBase win10 b h)) = DllCharacteristics h"
  by (simp add: prepareImageBase_def)

lemma clearRelocations_empty: "clearRelocations reloc = []"
  by (induction reloc) simp_all

text \<open>
  Claim C8, as the code has it. On the input of scenario S1 \<open>performOnDiskRelocations\<close>
  succeeds, the 4-byte window at offset 0x10 of \<open>.text\<close> holds
  \<open>0x00401234 + (0x00010000 - 0x00400000) = 0x00011234\<close>, the header's \<open>ImageBase\<close> is
  0xFFFF0000 and the relocation directory has no entries.
\<close>

theorem C8_S1_rebase:
  "fst (performOnDiskRelocations S1)
   \<and> getData (data (sectionContents (snd (performOnDiskRelocations S1)) ! 0)) 0x10 = Some 0x00011234
   \<and> map_option (\<lambda>pf. ImageBase (peHeader pf)) (peFile (snd (performOnDiskRelocations S1))) = Some 0xFFFF0000
   \<and> map_option relocDir (peFile (snd (performOnDiskRelocations S1))) = Some []"
  by (simp add: S1_defs rebase_defs)

text \<open>
  Claim C8 as it is written gives 0xFFC11234 for the window. The window held 0x00401234
  and does not hold 0xFFC11234 after the call (0xFFC11234 is the delta added to 0x1234).
\<close>

theorem C8_S1_window_is_not_FFC11234:
  "fst (performOnDiskRelocations S1)
   \<and> getData (data (sectionContents S1 ! 0)) 0x10 = Some 0x00401234
   \<and> getData (data (sectionContents (snd (performOnDiskRelocations S1)) ! 0)) 0x10 \<noteq> Some 0xFFC11234"
  by (simp add: S1_defs rebase_defs)

text \<open>
  Claim C9. With a PE file and sections loaded: when the header lacks \<open>DYNAMIC_BASE\<close>
  the operation returns false with the error \<open>AslrRequired\<close> and changes nothing else,
  in both modes; the message of the branch that writes \<open>characteristics & DYNAMIC_BASE\<close>
  is never printed, so the branch is never taken; and when the Win10 flag is set the
  DLL characteristics of the header are the same after the call.
\<close>

theorem C9_added_flag_branch_unreachable:
  assumes "peFile st = Some pf" and "sectionContents st \<noteq> []"
  shows "(ucast (DllCharacteristics (peHeader pf)) AND IMAGE_DLLCHARACTERISTICS_DYNAMIC_BASE
            \<noteq> IMAGE_DLLCHARACTERISTICS_DYNAMIC_BASE
          \<longrightarrow> performOnDiskRelocations st = (False, logError AslrRequired st))
       \<and> (\<forall>c n. AddedDynamicBase c n \<notin> set (infoStream st)
            \<longrightarrow> AddedDynamicBase c n \<notin> set (infoStream (snd (performOnDiskRelocations st))))
       \<and> (shouldUseWin10Attack st
            \<longrightarrow> map_option (\<lambda>pf. DllCharacteristics (peHeader pf)) (peFile (snd (performOnDiskRelocations st)))
                = Some (DllCharacteristics (peHeader pf)))"
proof (intro conjI impI allI)
  assume "ucast (DllCharacteristics (peHeader pf)) AND IMAGE_DLLCHARACTERISTICS_DYNAMIC_BASE
            \<noteq> IMAGE_DLLCHARACTERISTICS_DYNAMIC_BASE"
  then show "performOnDiskRelocations st = (False, logError AslrRequired st)"
    using assms by (simp add: performOnDiskRelocations_def Let_def)
next
  fix c n
  assume "AddedDynamicBase c n \<notin> set (infoStream st)"
  then show "AddedDynamicBase c n \<notin> set (infoStream (snd (performOnDiskRelocations st)))"
    using assms prepareCharacteristics_msg [of "peHeader pf" "shouldUseWin10Attack st" c n]
      prepareImageBase_msg [of "shouldUseWin10Attack st" "ImageBase (peHeader pf)"
         "fst (prepareCharacteristics (shouldUseWin10Attack st) (peHeader pf))" c n]
    by (auto simp: performOnDiskRelocations_def Let_def logError_def logInfo_def
             split: option.splits prod.splits)
next
  assume "shouldUseWin10Attack st"
  then show "map_option (\<lambda>pf. DllCharacteristics (peHeader pf)) (peFile (snd (performOnDiskRelocations st)))
                = Some (DllCharacteristics (peHeader pf))"
    using assms prepareCharacteristics_win10 [of "peHeader pf"]
      prepareImageBase_win10 [of True "ImageBase (peHeader pf)" "fst (prepareCharacteristics True (peHeader pf))"]
    by (auto simp: performOnDiskRelocations_def Let_def logError_def logInfo_def
             split: option.splits prod.splits)
qed

text \<open>
  Claim C9 at two inputs with the Win10 flag set: a header without \<open>DYNAMIC_BASE\<close>
  (the call fails, nothing is printed, the characteristics stay 0x0100) and the header
  of S1 (the call succeeds, the characteristics stay 0x0040).
\<close>

theorem C9_witness:
  "performOnDiskRelocations S1_no_aslr = (False, logError AslrRequired S1_no_aslr)
   \<and> infoStream (snd (performOnDiskRelocations S1_no_aslr)) = []
   \<and> map_option (\<lambda>pf. DllCharacteristics (peHeader pf)) (peFile (snd (performOnDiskRelocations S1_no_aslr)))
       = Some 0x0100
   \<and> fst (performOnDiskRelocations S6)
   \<and> map_option (\<lambda>pf. DllCharacteristics (peHeader pf)) (peFile (snd (performOnDiskRelocations S6)))
       = Some 0x0040"
  using C9_added_flag_branch_unreachable [of S1_no_aslr
      "\<lparr>addressOfPeHeader = 0x80, peHeader = S1_header\<lparr>DllCharacteristics := 0x0100\<rparr>,
        relocDir = [], fileRelocations = Some S1_relocs\<rparr>"]
    C9_added_flag_branch_unreachable [of S6
      "\<lparr>addressOfPeHeader = 0x80, peHeader = S1_header, relocDir = [],
        fileRelocations = Some S1_relocs\<rparr>"]
  by (simp add: S1_no_aslr_def S6_def S1_defs rebase_defs)

text \<open>
  Claim C3, as the code has it. When the Win10 flag is set, \<open>performOnDiskRelocations\<close>
  leaves the DLL characteristics and the \<open>ImageBase\<close> of the header as they were, and
  \<open>rewriteHeader\<close> adds no rewrite block; the relocation table is cleared as in the
  standard mode: after a successful call the directory has no entries.
\<close>

theorem C3_win10_frame:
  assumes "shouldUseWin10Attack st"
  shows "map_option (\<lambda>pf. (DllCharacteristics (peHeader pf), ImageBase (peHeader pf)))
             (peFile (snd (performOnDiskRelocations st)))
           = map_option (\<lambda>pf. (DllCharacteristics (peHeader pf), ImageBase (peHeader pf))) (peFile st)
       \<and> (fst (performOnDiskRelocations st)
            \<longrightarrow> map_option relocDir (peFile (snd (performOnDiskRelocations st))) = Some [])
       \<and> (\<exists>r st'. rewriteHeader nextPass st = Some (r, st') \<and> rewriteBlocks st' = rewriteBlocks st)"
proof (intro conjI impI)
  show "map_option (\<lambda>pf. (DllCharacteristics (peHeader pf), ImageBase (peHeader pf)))
             (peFile (snd (performOnDiskRelocations st)))
           = map_option (\<lambda>pf. (DllCharacteristics (peHeader pf), ImageBase (peHeader pf))) (peFile st)"
    using assms
    by (auto simp: performOnDiskRelocations_def Let_def logError_def logInfo_def
                   prepareCharacteristics_def prepareImageBase_def
                   IMAGE_DLLCHARACTERISTICS_DYNAMIC_BASE_def
             split: option.splits prod.splits)
next
  assume "fst (performOnDiskRelocations st)"
  then show "map_option relocDir (peFile (snd (performOnDiskRelocations st))) = Some []"
    by (auto simp: performOnDiskRelocations_def Let_def logError_def logInfo_def clearRelocations_empty
             split: option.splits prod.splits if_splits)
next
  show "\<exists>r st'. rewriteHeader nextPass st = Some (r, st') \<and> rewriteBlocks st' = rewriteBlocks st"
    using assms
    by (auto simp: rewriteHeader_def doRewriteReadyCheck_def logError_def logInfo_def
             split: option.splits prod.splits bool.splits)
qed

text \<open>Claim C3, as the code has it, on scenario S6.\<close>

theorem C3_witness:
  "shouldUseWin10Attack S6
   \<and> map_option (\<lambda>pf. (DllCharacteristics (peHeader pf), ImageBase (peHeader pf)))
             (peFile (snd (performOnDiskRelocations S6))) = Some (0x0040, 0x00400000)
   \<and> fst (performOnDiskRelocations S6)
   \<and> map_option relocDir (peFile (snd (performOnDiskRelocations S6))) = Some []
   \<and> (\<exists>r st'. rewriteHeader (\<lambda>b n. None) S6 = Some (r, st') \<and> rewriteBlocks st' = rewriteBlocks S6)"
  using C3_win10_frame [of S6 "\<lambda>b n. None"]
  by (simp add: S6_def S1_defs rebase_defs)

text \<open>
  Claim C3 as it is written says the relocation table is not cleared in Win10 mode. On
  scenario S6 the flag is set, the directory of the input file has one block, the call
  succeeds and the directory has no block afterwards.
\<close>

theorem C3_win10_clears_reloc_table:
  "shouldUseWin10Attack S6
   \<and> map_option (\<lambda>pf. map_option length (fileRelocations pf)) (peFile S6) = Some (Some 1)
   \<and> fst (performOnDiskRelocations S6)
   \<and> map_option (\<lambda>pf. length (relocDir pf)) (peFile (snd (performOnDiskRelocations S6))) = Some 0"
  by (simp add: S6_def S1_defs rebase_defs)

text \<open>
  Claim C2 at an entry of type 1. The code tests \<open>entryType & IMAGE_REL_BASED_HIGHLOW\<close>,
  so the entry 0x1010 (type 1, offset 0x10) is relocated like a HIGHLOW entry: the call
  succeeds, no error is printed, and the window at offset 0x10 holds the value plus the
  delta.
\<close>

theorem C2_type1_entry_is_relocated:
  "drop_bit 12 (0x1010 :: u16) = 1
   \<and> fst (performOnDiskRelocations S1_type1)
   \<and> errorStream (snd (performOnDiskRelocations S1_type1)) = []
   \<and> getData (data (sectionContents S1_type1 ! 0)) 0x10 = Some 0x00401234
   \<and> getData (data (sectionContents (snd (performOnDiskRelocations S1_type1)) ! 0)) 0x10 = Some 0x00011234"
  by (simp add: S1_type1_def S1_defs rebase_defs)

section \<open>The collectors\<close>

text \<open>
  The precondition of the collectors in the words of the specification: the PE file is
  loaded, the section contents are loaded, and either the Win10 flag is set or the
  relocation directory has zero entries and \<open>ImageBase\<close> is \<open>TRICKY_BASE\<close>.
\<close>

definition rewriteReady :: "PeRecompiler \<Rightarrow> bool" where
  "rewriteReady st =
     (case peFile st of
        None \<Rightarrow> False
      | Some pf \<Rightarrow>
          sectionContents st \<noteq> [] \<and>
          (shouldUseWin10Attack st \<or>
           (length (relocDir pf) = 0 \<and> ImageBase (peHeader pf) = TRICKY_BASE_ADDRESS)))"

lemma doRewriteReadyCheck_ready: "fst (doRewriteReadyCheck st) = rewriteReady st"
  by (auto simp: doRewriteReadyCheck_def rewriteReady_def split: option.splits)

lemma doRewriteReadyCheck_blocks: "rewriteBlocks (snd (doRewriteReadyCheck st)) = rewriteBlocks st"
  by (auto simp: doRewriteReadyCheck_def logError_def split: option.splits)

text \<open>
  Claim C6. Unless the precondition holds, each of \<open>rewriteHeader\<close>, \<open>fixupBase\<close>,
  \<open>rewriteSection\<close>, \<open>rewriteImports\<close> and \<open>rewriteMatches\<close> returns false and leaves
  the list of rewrite blocks as it was.
\<close>

theorem C6_collectors_need_ready:
  assumes "\<not> rewriteReady st"
  shows "\<forall>r \<in> {rewriteHeader nextPass st, fixupBase nextPass st, rewriteSection nextPass nm st,
                 rewriteImports nextPass st, rewriteMatches nextPass needle st}.
           \<exists>st'. r = Some (False, st') \<and> rewriteBlocks st' = rewriteBlocks st"
proof -
  obtain st1 where c: "doRewriteReadyCheck st = (False, st1)"
    using assms doRewriteReadyCheck_ready [of st] by (cases "doRewriteReadyCheck st") auto
  then have "rewriteBlocks st1 = rewriteBlocks st"
    using doRewriteReadyCheck_blocks [of st] by simp
  with c show ?thesis
    by (simp add: rewriteHeader_def fixupBase_def rewriteSection_def rewriteImports_def
                  rewriteMatches_def)
qed

text \<open>
  Claim C6 on scenario S1 before the rebase: the image base is not \<open>TRICKY_BASE\<close>, and
  every collector returns false with the error \<open>RewritePreconditionViolated\<close>.
\<close>

theorem C6_witness:
  "\<not> rewriteReady S1
   \<and> rewriteHeader (\<lambda>b n. None) S1 = Some (False, logError RewritePreconditionViolated S1)
   \<and> fixupBase (\<lambda>b n. None) S1 = Some (False, logError RewritePreconditionViolated S1)
   \<and> rewriteSection (\<lambda>b n. None) ''.text'' S1 = Some (False, logError RewritePreconditionViolated S1)
   \<and> rewriteImports (\<lambda>b n. None) S1 = Some (False, logError RewritePreconditionViolated S1)
   \<and> rewriteMatches (\<lambda>b n. None) ''hello'' S1 = Some (False, logError RewritePreconditionViolated S1)
   \<and> rewriteBlocks (logError RewritePreconditionViolated S1) = rewriteBlocks S1"
  using C6_collectors_need_ready [of S1 "\<lambda>b n. None" "''.text''" "''hello''"]
  by (simp add: rewriteReady_def S1_defs TRICKY_BASE_ADDRESS_def rewriteHeader_def fixupBase_def
       rewriteSection_def rewriteImports_def rewriteMatches_def doRewriteReadyCheck_def logError_def)

section \<open>The relocation blocks of the packer\<close>

lemma mask12: "(0x0FFF::u16) = mask 12"
  by (simp add: mask_eq_exp_minus_1)

lemma highlow_mask: "IMAGE_REL_BASED_HIGHLOW = mask 2"
  by (simp add: IMAGE_REL_BASED_HIGHLOW_def mask_eq_exp_minus_1)

lemma entry_type:
  "drop_bit 12 (push_bit 12 IMAGE_REL_BASED_HIGHLOW OR (offset AND 0x0FFF)) = IMAGE_REL_BASED_HIGHLOW"
  unfolding mask12 highlow_mask
  by (rule bit_word_eqI) (auto simp: bit_simps)

lemma entry_low: "(push_bit 12 IMAGE_REL_BASED_HIGHLOW OR (offset AND 0x0FFF)) AND 0x0FFF = offset AND 0x0FFF"
  unfolding mask12 highlow_mask
  by (rule bit_word_eqI) (auto simp: bit_simps)

lemma low_bound: "unat ((e::u16) AND 0x0FFF) < 4096"
proof -
  have "e AND 0x0FFF \<le> 0x0FFF" by (rule word_and_le1)
  then have "unat (e AND 0x0FFF) \<le> unat (0x0FFF::u16)" by (simp add: word_le_nat_alt)
  then show ?thesis by simp
qed

lemma low_id: "(offset::u16) < 4096 \<Longrightarrow> offset AND 0x0FFF = offset"
  unfolding mask12
  using less_mask_eq [of offset 12] by simp

lemma packRelocation_va: "blockVirtualAddress (packRelocation pb) = beginRVA pb"
  by (simp add: packRelocation_def Let_def)

lemma packRelocation_data:
  "relocData (packRelocation pb) =
     map (\<lambda>offset. push_bit 12 IMAGE_REL_BASED_HIGHLOW OR (offset AND 0x0FFF)) (offsets pb)
     @ (if odd (length (offsets pb)) then [0] else [])"
  by (simp add: packRelocation_def Let_def odd_iff_mod_2_eq_one)

lemma packRelocation_even: "even (length (relocData (packRelocation pb)))"
  by (simp add: packRelocation_data)

lemma packRelocation_size:
  "SizeOfBlock (packRelocation pb) = of_nat (length (relocData (packRelocation pb))) * 2 + 8"
  by (simp add: packRelocation_def Let_def)

lemma packRelocation_size_nat:
  "length (offsets pb) \<le> 1024 \<Longrightarrow>
     unat (SizeOfBlock (packRelocation pb)) = length (relocData (packRelocation pb)) * 2 + 8"
  by (simp add: packRelocation_def Let_def unat_word_ariths unat_of_nat)

lemma generateRelocs_map: "generateRelocs pbs reloc = reloc @ map packRelocation pbs"
  by (induction pbs arbitrary: reloc) simp_all

section \<open>The packing loop\<close>

lemma applyEntries_None:
  "decrementEntry pf scs B off d = None \<Longrightarrow> applyEntries d B rva off pf scs pb rest = (pf, scs, pb # rest)"
  by (subst applyEntries.simps) simp

lemma applyEntries_last:
  "decrementEntry pf scs B off d = Some (pf1, scs1) \<Longrightarrow> getNextEntryLoc pf1 scs1 B dataSize off = None
   \<Longrightarrow> applyEntries d B rva off pf scs pb rest
       = (pf1, scs1, fst (recordOffset rva pb rest) # snd (recordOffset rva pb rest))"
  by (subst applyEntries.simps) (simp split: prod.splits)

lemma applyEntries_step:
  "decrementEntry pf scs B off d = Some (pf1, scs1)
   \<Longrightarrow> getNextEntryLoc pf1 scs1 B dataSize off = Some (rva1, off1)
   \<Longrightarrow> applyEntries d B rva off pf scs pb rest
       = applyEntries d B rva1 off1 pf1 scs1 (fst (recordOffset rva pb rest)) (snd (recordOffset rva pb rest))"
  by (subst applyEntries.simps) (simp split: prod.splits)

lemma applyEntries_induct [case_names step]:
  assumes "\<And>d B rva off pf scs pb rest.
     (\<And>pf1 scs1 rva1 off1. decrementEntry pf scs B off d = Some (pf1, scs1)
        \<Longrightarrow> getNextEntryLoc pf1 scs1 B dataSize off = Some (rva1, off1)
        \<Longrightarrow> P d B rva1 off1 pf1 scs1 (fst (recordOffset rva pb rest)) (snd (recordOffset rva pb rest)))
     \<Longrightarrow> P d B rva off pf scs pb rest"
  shows "P d B rva off pf scs pb rest"
proof (induction d B rva off pf scs pb rest rule: applyEntries.induct)
  case (1 d B rva off pf scs pb rest)
  show ?case
  proof (rule assms)
    fix pf1 scs1 rva1 off1
    assume a: "decrementEntry pf scs B off d = Some (pf1, scs1)"
      and b: "getNextEntryLoc pf1 scs1 B dataSize off = Some (rva1, off1)"
    show "P d B rva1 off1 pf1 scs1 (fst (recordOffset rva pb rest)) (snd (recordOffset rva pb rest))"
      by (rule "1.IH" [OF a refl _ b refl]) simp
  qed
qed

lemma recordOffset_acc:
  "recordOffset rva pb (rest @ acc) = (fst (recordOffset rva pb rest), snd (recordOffset rva pb rest) @ acc)"
  by (simp add: recordOffset_def Let_def)

lemma applyEntries_acc:
  "applyEntries d B rva off pf scs pb (rest @ acc)
     = (case applyEntries d B rva off pf scs pb rest of (a, b, c) \<Rightarrow> (a, b, c @ acc))"
proof (induction d B rva off pf scs pb rest rule: applyEntries_induct)
  case (step d B rva off pf scs pb rest)
  show ?case
  proof (cases "decrementEntry pf scs B off d")
    case None
    then show ?thesis by (simp add: applyEntries_None)
  next
    case (Some p)
    obtain pf1 scs1 where p: "decrementEntry pf scs B off d = Some (pf1, scs1)"
      using Some by (cases p) simp
    show ?thesis
    proof (cases "getNextEntryLoc pf1 scs1 B dataSize off")
      case None
      with p show ?thesis by (simp add: applyEntries_last recordOffset_acc)
    next
      case (Some q)
      obtain rva1 off1 where q: "getNextEntryLoc pf1 scs1 B dataSize off = Some (rva1, off1)"
        using Some by (cases q) simp
      show ?thesis
        using step [OF p q] by (simp add: applyEntries_step [OF p q] recordOffset_acc)
    qed
  qed
qed


definition packedOk :: "PackedBlock \<Rightarrow> bool" where
  "packedOk pb = (length (offsets pb) \<le> 1024 \<and> list_all (\<lambda>offset. offset < 4096) (offsets pb))"

definition frontOk :: "u32 \<Rightarrow> PackedBlock \<Rightarrow> bool" where
  "frontOk rva pb = (packedOk pb \<and> unat (rva - beginRVA pb) = 4 * length (offsets pb))"

definition layoutOf :: "PeSectionContents list \<Rightarrow> (u32 \<times> u32 \<times> nat) list" where
  "layoutOf scs = map (\<lambda>sec. (RVA sec, rawSize sec, length (data sec))) scs"

definition locOk :: "PeSectionContents list \<Rightarrow> RewriteBlock \<Rightarrow> u32 \<Rightarrow> u32 \<Rightarrow> bool" where
  "locOk scs B rva off =
     (case B of PeSectionRewriteBlock i r \<Rightarrow> i < length scs \<and> rva = RVA (scs ! i) + off | _ \<Rightarrow> True)"

lemma ucast_16_32_id: "unat (x::u32) < 65536 \<Longrightarrow> (ucast (ucast x :: u16) :: u32) = x"
  by (simp add: word_unat_eq_iff unsigned_ucast_eq unsigned_take_bit_eq take_bit_nat_eq_self)

lemma unat_ucast_16: "unat (x::u32) < 65536 \<Longrightarrow> unat (ucast x :: u16) = unat x"
  by (simp add: unsigned_ucast_eq take_bit_nat_eq_self)

lemma recordOffset_cases:
  assumes "frontOk rva pb"
  shows "(length (offsets pb) = 1024 \<and> recordOffset rva pb rest = (\<lparr>beginRVA = rva, offsets = [0]\<rparr>, pb # rest))
       \<or> (length (offsets pb) < 1024
           \<and> recordOffset rva pb rest = (pb\<lparr>offsets := offsets pb @ [ucast (rva - beginRVA pb)]\<rparr>, rest))"
proof -
  have u: "unat (rva - beginRVA pb) = 4 * length (offsets pb)" and n: "length (offsets pb) \<le> 1024"
    using assms by (simp_all add: frontOk_def packedOk_def)
  then have small: "unat (rva - beginRVA pb) < 65536" by simp
  have "(chunkSize \<le> rva - beginRVA pb) = (length (offsets pb) = 1024)"
    using u n by (simp add: chunkSize_def dataSize_def word_le_nat_alt)
  then show ?thesis
    using n by (auto simp: recordOffset_def Let_def ucast_16_32_id [OF small])
qed

lemma recordOffset_front:
  assumes "frontOk rva pb"
  shows "frontOk (rva + 4) (fst (recordOffset rva pb rest))"
proof -
  have u: "unat (rva - beginRVA pb) = 4 * length (offsets pb)" and n: "length (offsets pb) \<le> 1024"
    and ok: "list_all (\<lambda>offset. offset < 4096) (offsets pb)"
    using assms by (simp_all add: frontOk_def packedOk_def)
  from recordOffset_cases [OF assms, of rest] show ?thesis
  proof
    assume "length (offsets pb) = 1024 \<and> recordOffset rva pb rest = (\<lparr>beginRVA = rva, offsets = [0]\<rparr>, pb # rest)"
    then show ?thesis by (simp add: frontOk_def packedOk_def)
  next
    assume a: "length (offsets pb) < 1024
           \<and> recordOffset rva pb rest = (pb\<lparr>offsets := offsets pb @ [ucast (rva - beginRVA pb)]\<rparr>, rest)"
    then have lt: "unat (rva - beginRVA pb) < 4096" using u by simp
    then have "unat (ucast (rva - beginRVA pb) :: u16) < 4096" by (simp add: unat_ucast_16)
    then have o: "(ucast (rva - beginRVA pb) :: u16) < 4096" by (simp add: word_less_nat_alt)
    have e: "rva + 4 - beginRVA pb = (rva - beginRVA pb) + 4" by simp
    have "unat ((rva - beginRVA pb) + 4) = unat (rva - beginRVA pb) + 4"
      using lt by (simp add: unat_word_ariths)
    then have "unat (rva + 4 - beginRVA pb) = 4 * (length (offsets pb) + 1)"
      unfolding e using u by simp
    with a o ok show ?thesis by (simp add: frontOk_def packedOk_def)
  qed
qed

lemma putData_length: "length (putData d off v) = length d"
  by (auto simp: putData_def bytes32_def)

lemma layoutOf_length: "layoutOf a = layoutOf b \<Longrightarrow> length a = length b"
  by (drule arg_cong [where f = length]) (simp add: layoutOf_def)

lemma layoutOf_nth:
  "layoutOf a = layoutOf b \<Longrightarrow> i < length b \<Longrightarrow>
     RVA (a ! i) = RVA (b ! i) \<and> rawSize (a ! i) = rawSize (b ! i) \<and> length (data (a ! i)) = length (data (b ! i))"
proof -
  assume e: "layoutOf a = layoutOf b" and i: "i < length b"
  then have "i < length a" using layoutOf_length [OF e] by simp
  then have "layoutOf a ! i = (RVA (a ! i), rawSize (a ! i), length (data (a ! i)))"
    by (simp add: layoutOf_def)
  moreover have "layoutOf b ! i = (RVA (b ! i), rawSize (b ! i), length (data (b ! i)))"
    using i by (simp add: layoutOf_def)
  ultimately show ?thesis using e by simp
qed

lemma recordOffset_rest:
  assumes "frontOk rva pb" and "list_all packedOk rest"
  shows "list_all packedOk (snd (recordOffset rva pb rest))"
  using recordOffset_cases [OF assms(1), of rest] assms by (auto simp: frontOk_def)


lemma decrementEntry_layout:
  "decrementEntry pf scs B off d = Some (pf1, scs1) \<Longrightarrow> layoutOf scs1 = layoutOf scs"
  by (auto simp: decrementEntry_def layoutOf_def Let_def putData_length map_update list_update_same_conv
           split: RewriteBlock.splits if_splits option.splits)

lemma locOk_layout: "layoutOf scs1 = layoutOf scs \<Longrightarrow> locOk scs B rva off \<Longrightarrow> locOk scs1 B rva off"
  using layoutOf_length [of scs1 scs] layoutOf_nth [of scs1 scs]
  by (auto simp: locOk_def split: RewriteBlock.splits)

lemma getNextEntryLoc_loc:
  assumes "getNextEntryLoc pf scs B dataSize off = Some (rva1, off1)" and "locOk scs B rva off"
  shows "rva1 = rva + 4" and "off1 = off + 4" and "locOk scs B rva1 off1"
  using assms
  by (auto simp: getNextEntryLoc_def locOk_def dataSize_def Let_def
           split: RewriteBlock.splits if_splits prod.splits)

lemma applyEntries_layout:
  "layoutOf (fst (snd (applyEntries d B rva off pf scs pb rest))) = layoutOf scs"
proof (induction d B rva off pf scs pb rest rule: applyEntries_induct)
  case (step d B rva off pf scs pb rest)
  show ?case
  proof (cases "decrementEntry pf scs B off d")
    case None
    then show ?thesis by (simp add: applyEntries_None)
  next
    case (Some p)
    obtain pf1 scs1 where p: "decrementEntry pf scs B off d = Some (pf1, scs1)"
      using Some by (cases p) simp
    note l = decrementEntry_layout [OF p]
    show ?thesis
    proof (cases "getNextEntryLoc pf1 scs1 B dataSize off")
      case None
      with p l show ?thesis by (simp add: applyEntries_last)
    next
      case (Some q)
      obtain rva1 off1 where q: "getNextEntryLoc pf1 scs1 B dataSize off = Some (rva1, off1)"
        using Some by (cases q) simp
      show ?thesis
        using step [OF p q] l by (simp add: applyEntries_step [OF p q])
    qed
  qed
qed

lemma applyEntries_packedOk:
  "frontOk rva pb \<Longrightarrow> locOk scs B rva off \<Longrightarrow> list_all packedOk rest
   \<Longrightarrow> list_all packedOk (snd (snd (applyEntries d B rva off pf scs pb rest)))"
proof (induction d B rva off pf scs pb rest rule: applyEntries_induct)
  case (step d B rva off pf scs pb rest)
  note f = \<open>frontOk rva pb\<close> and r = \<open>list_all packedOk rest\<close>
  show ?case
  proof (cases "decrementEntry pf scs B off d")
    case None
    then show ?thesis using f r by (simp add: applyEntries_None frontOk_def)
  next
    case (Some p)
    obtain pf1 scs1 where p: "decrementEntry pf scs B off d = Some (pf1, scs1)"
      using Some by (cases p) simp
    have loc1: "locOk scs1 B rva off"
      using locOk_layout [OF decrementEntry_layout [OF p] step.prems(2)] .
    have f1: "frontOk (rva + 4) (fst (recordOffset rva pb rest))"
      using recordOffset_front [OF f] .
    have r1: "list_all packedOk (snd (recordOffset rva pb rest))"
      using recordOffset_rest [OF f r] .
    show ?thesis
    proof (cases "getNextEntryLoc pf1 scs1 B dataSize off")
      case None
      with p f1 r1 show ?thesis by (simp add: applyEntries_last frontOk_def)
    next
      case (Some q)
      obtain rva1 off1 where q: "getNextEntryLoc pf1 scs1 B dataSize off = Some (rva1, off1)"
        using Some by (cases q) simp
      note n = getNextEntryLoc_loc(1) [OF q loc1] getNextEntryLoc_loc(3) [OF q loc1]
      have f2: "frontOk rva1 (fst (recordOffset rva pb rest))"
        using f1 n(1) by simp
      show ?thesis
        using step.IH [OF p q f2 n(2) r1] by (simp add: applyEntries_step [OF p q])
    qed
  qed
qed







section \<open>The rewrite blocks in the order of the list\<close>

text \<open>
  What each rewrite block of the list adds to the front of the list of packed blocks, in
  the order of the rewrite blocks: the blocks the loop of lines 482-498 builds from an
  empty list, each rewrite block working on the image the earlier ones have left.
\<close>

fun packedPerBlock ::
  "u32 \<Rightarrow> RewriteBlock list \<Rightarrow> PeFile \<Rightarrow> PeSectionContents list \<Rightarrow> PackedBlock list list" where
  "packedPerBlock d [] pf scs = []"
| "packedPerBlock d (B # Bs) pf scs =
     (case getFirstEntryLoc pf scs B dataSize of
        None \<Rightarrow> [] # packedPerBlock d Bs pf scs
      | Some (rva, off) \<Rightarrow>
          (case applyEntries d B rva off pf scs \<lparr>beginRVA = rva, offsets = []\<rparr> [] of
             (pf1, scs1, new) \<Rightarrow> new # packedPerBlock d Bs pf1 scs1))"



lemma applyRewrites_packed:
  "snd (snd (applyRewrites d Bs pf scs acc)) = concat (rev (packedPerBlock d Bs pf scs)) @ acc"
proof (induction Bs arbitrary: pf scs acc)
  case Nil
  show ?case by simp
next
  case (Cons B Bs)
  show ?case
  proof (cases "getFirstEntryLoc pf scs B dataSize")
    case None
    then show ?thesis using Cons.IH by simp
  next
    case (Some p)
    obtain rva off where p: "p = (rva, off)" by (cases p)
    obtain pf1 scs1 new where a: "applyEntries d B rva off pf scs \<lparr>beginRVA = rva, offsets = []\<rparr> [] = (pf1, scs1, new)"
      by (cases "applyEntries d B rva off pf scs \<lparr>beginRVA = rva, offsets = []\<rparr> []") auto
    have "applyEntries d B rva off pf scs \<lparr>beginRVA = rva, offsets = []\<rparr> acc = (pf1, scs1, new @ acc)"
      using applyEntries_acc [of d B rva off pf scs "\<lparr>beginRVA = rva, offsets = []\<rparr>" "[]" acc] a by simp
    then show ?thesis
      using Some p a Cons.IH [of pf1 scs1 "new @ acc"] by simp
  qed
qed

lemma frontOk_fresh: "frontOk rva \<lparr>beginRVA = rva, offsets = []\<rparr>"
  by (simp add: frontOk_def packedOk_def)

lemma getFirstEntryLoc_loc: "getFirstEntryLoc pf scs B dataSize = Some (rva, off) \<Longrightarrow> locOk scs B rva off"
  by (auto simp: getFirstEntryLoc_def locOk_def Let_def split: RewriteBlock.splits if_splits prod.splits)

lemma applyRewrites_layout: "layoutOf (fst (snd (applyRewrites d Bs pf scs acc))) = layoutOf scs"
proof (induction Bs arbitrary: pf scs acc)
  case Nil
  show ?case by simp
next
  case (Cons B Bs)
  show ?case
  proof (cases "getFirstEntryLoc pf scs B dataSize")
    case None
    then show ?thesis using Cons.IH by simp
  next
    case (Some p)
    obtain rva off where p: "p = (rva, off)" by (cases p)
    obtain pf1 scs1 new where a: "applyEntries d B rva off pf scs \<lparr>beginRVA = rva, offsets = []\<rparr> acc = (pf1, scs1, new)"
      by (cases "applyEntries d B rva off pf scs \<lparr>beginRVA = rva, offsets = []\<rparr> acc") auto
    have "layoutOf scs1 = layoutOf scs"
      using applyEntries_layout [of d B rva off pf scs "\<lparr>beginRVA = rva, offsets = []\<rparr>" acc] a by simp
    then show ?thesis
      using Some p a Cons.IH [of pf1 scs1 new] by simp
  qed
qed

lemma applyRewrites_packedOk:
  "list_all packedOk acc \<Longrightarrow> list_all packedOk (snd (snd (applyRewrites d Bs pf scs acc)))"
proof (induction Bs arbitrary: pf scs acc)
  case Nil
  then show ?case by simp
next
  case (Cons B Bs)
  show ?case
  proof (cases "getFirstEntryLoc pf scs B dataSize")
    case None
    then show ?thesis using Cons by simp
  next
    case (Some p)
    obtain rva off where p: "p = (rva, off)" by (cases p)
    obtain pf1 scs1 new where a: "applyEntries d B rva off pf scs \<lparr>beginRVA = rva, offsets = []\<rparr> acc = (pf1, scs1, new)"
      by (cases "applyEntries d B rva off pf scs \<lparr>beginRVA = rva, offsets = []\<rparr> acc") auto
    have "list_all packedOk new"
      using applyEntries_packedOk [OF frontOk_fresh getFirstEntryLoc_loc Cons.prems, of pf scs B rva off d pf]
        Some p a by simp
    then show ?thesis
      using Some p a Cons.IH [of new pf1 scs1] by simp
  qed
qed



section \<open>The relocation directory that writeOutputFile generates\<close>

text \<open>
  What the rewrites leave alone in the file handle: everything but the two header fields
  that a header block decrements.
\<close>

definition headerFrame :: "PeFile \<Rightarrow> u32 \<times> RelocBlock list \<times> RelocBlock list option \<times> PeHeader" where
  "headerFrame pf = (addressOfPeHeader pf, relocDir pf, fileRelocations pf,
                     (peHeader pf)\<lparr>AddressOfEntryPoint := 0, ImageBase := 0\<rparr>)"

lemma headerFrame_relocDir: "headerFrame a = headerFrame b \<Longrightarrow> relocDir a = relocDir b"
  by (simp add: headerFrame_def)

lemma headerFrame_sectionTable:
  "headerFrame a = headerFrame b \<Longrightarrow> sectionTable (peHeader a) = sectionTable (peHeader b)"
  by (drule arg_cong [where f = "\<lambda>(a, r, f, h). sectionTable h"]) (simp add: headerFrame_def)

lemma headerFrame_relocRva:
  "headerFrame a = headerFrame b \<Longrightarrow> IddBaseRelocRva (peHeader a) = IddBaseRelocRva (peHeader b)"
  by (drule arg_cong [where f = "\<lambda>(a, r, f, h). IddBaseRelocRva h"]) (simp add: headerFrame_def)

lemma decrementEntry_frame:
  "decrementEntry pf scs B off d = Some (pf1, scs1) \<Longrightarrow> headerFrame pf1 = headerFrame pf"
  by (auto simp: decrementEntry_def headerFrame_def Let_def
           split: RewriteBlock.splits if_splits option.splits)

lemma applyEntries_frame:
  "headerFrame (fst (applyEntries d B rva off pf scs pb rest)) = headerFrame pf"
proof (induction d B rva off pf scs pb rest rule: applyEntries_induct)
  case (step d B rva off pf scs pb rest)
  show ?case
  proof (cases "decrementEntry pf scs B off d")
    case None
    then show ?thesis by (simp add: applyEntries_None)
  next
    case (Some p)
    obtain pf1 scs1 where p: "decrementEntry pf scs B off d = Some (pf1, scs1)"
      using Some by (cases p) simp
    note l = decrementEntry_frame [OF p]
    show ?thesis
    proof (cases "getNextEntryLoc pf1 scs1 B dataSize off")
      case None
      with p l show ?thesis by (simp add: applyEntries_last)
    next
      case (Some q)
      obtain rva1 off1 where q: "getNextEntryLoc pf1 scs1 B dataSize off = Some (rva1, off1)"
        using Some by (cases q) simp
      show ?thesis
        using step [OF p q] l by (simp add: applyEntries_step [OF p q])
    qed
  qed
qed

lemma applyRewrites_frame: "headerFrame (fst (applyRewrites d Bs pf scs acc)) = headerFrame pf"
proof (induction Bs arbitrary: pf scs acc)
  case Nil
  show ?case by simp
next
  case (Cons B Bs)
  show ?case
  proof (cases "getFirstEntryLoc pf scs B dataSize")
    case None
    then show ?thesis using Cons.IH by simp
  next
    case (Some p)
    obtain rva off where p: "p = (rva, off)" by (cases p)
    obtain pf1 scs1 new where a: "applyEntries d B rva off pf scs \<lparr>beginRVA = rva, offsets = []\<rparr> acc = (pf1, scs1, new)"
      by (cases "applyEntries d B rva off pf scs \<lparr>beginRVA = rva, offsets = []\<rparr> acc") auto
    have "headerFrame pf1 = headerFrame pf"
      using applyEntries_frame [of d B rva off pf scs "\<lparr>beginRVA = rva, offsets = []\<rparr>" acc] a by simp
    then show ?thesis
      using Some p a Cons.IH [of pf1 scs1 new] by simp
  qed
qed

lemma embedAndWrite_relocDir:
  assumes "embedAndWrite ps lay st pf scs = (True, st')"
  shows "\<exists>pf'. peFile st' = Some pf' \<and> relocDir pf' = relocDir pf"
  using assms
  by (auto simp: embedAndWrite_def Let_def logInfo_def logError_def
           split: option.splits prod.splits if_splits)

lemma writeOutputFile_relocDir:
  assumes "writeOutputFile ps lay st = (True, st')" and "peFile st = Some pf"
  shows "\<exists>pf'. peFile st' = Some pf'
     \<and> relocDir pf' =
         (if concat (packedPerBlock (ACTUALIZED_BASE_ADDRESS - ImageBase (peHeader pf)) (rewriteBlocks st) pf
                       (sectionContents st)) = []
          then relocDir pf
          else map packRelocation
                 (concat (rev (packedPerBlock (ACTUALIZED_BASE_ADDRESS - ImageBase (peHeader pf))
                                 (rewriteBlocks st) pf (sectionContents st)))))"
proof -
  let ?d = "ACTUALIZED_BASE_ADDRESS - ImageBase (peHeader pf)"
  let ?per = "packedPerBlock ?d (rewriteBlocks st) pf (sectionContents st)"
  obtain pf1 scs1 packed where a: "applyRewrites ?d (rewriteBlocks st) pf (sectionContents st) [] = (pf1, scs1, packed)"
    by (cases "applyRewrites ?d (rewriteBlocks st) pf (sectionContents st) []") auto
  have packed: "packed = concat (rev ?per)"
    using applyRewrites_packed [of ?d "rewriteBlocks st" pf "sectionContents st" "[]"] a by simp
  have "headerFrame pf1 = headerFrame pf"
    using applyRewrites_frame [of ?d "rewriteBlocks st" pf "sectionContents st" "[]"] a by simp
  then have r: "relocDir pf1 = relocDir pf"
    by (rule headerFrame_relocDir)
  have e: "(concat ?per = []) = (packed = [])"
    unfolding packed by auto
  show ?thesis
  proof (cases "packed = []")
    case True
    then have "embedAndWrite ps lay (logInfo [GeneratingOutput] st) pf1 scs1 = (True, st')"
      using assms a by (simp add: writeOutputFile_def Let_def split: if_splits)
    from embedAndWrite_relocDir [OF this] show ?thesis using True e r by simp
  next
    case False
    then have "relocDir pf1 = [] \<and> embedAndWrite ps lay
                 (logInfo [AppliedAllRewrites, GeneratedRelocTable (length packed)] (logInfo [GeneratingOutput] st))
                 (pf1\<lparr>relocDir := generateRelocs packed (relocDir pf1)\<rparr>) scs1 = (True, st')"
      using assms a by (simp add: writeOutputFile_def Let_def split: if_splits)
    then show ?thesis
      using embedAndWrite_relocDir [of ps lay _ "pf1\<lparr>relocDir := generateRelocs packed (relocDir pf1)\<rparr>" scs1 st']
        False e packed by (auto simp: generateRelocs_map)
  qed
qed

lemma applyRewrites_result_packedOk:
  "list_all packedOk (concat (rev (packedPerBlock d Bs pf scs)))"
  using applyRewrites_packedOk [of "[]" d Bs pf scs] applyRewrites_packed [of d Bs pf scs "[]"]
  by simp

text \<open>
  Claim C5. When \<open>writeOutputFile\<close> succeeds and the rewrites have produced packed
  blocks, the relocation directory is one block per packed block, in the order of the
  list. For each of them: the block is at the RVA of the packed block; its \<open>SizeOfBlock\<close>
  is twice the number of its 16-bit entries, the pad included, plus 8; the number of
  entries is even; the entries are one real entry per offset, followed by a single zero
  entry exactly when the number of offsets is odd; and the low 12 bits of every real
  entry are the offset, below 4096, and its high 4 bits are \<open>IMAGE_REL_BASED_HIGHLOW\<close>.
\<close>

theorem C5_emitted_block_headers:
  assumes "fst (writeOutputFile prepareStub layout st)" and "peFile st = Some pf"
    and "packed = concat (rev (packedPerBlock (ACTUALIZED_BASE_ADDRESS - ImageBase (peHeader pf))
                                 (rewriteBlocks st) pf (sectionContents st)))"
    and "packed \<noteq> []"
  shows "map_option relocDir (peFile (snd (writeOutputFile prepareStub layout st)))
           = Some (map packRelocation packed)
       \<and> (\<forall>pb \<in> set packed.
             blockVirtualAddress (packRelocation pb) = beginRVA pb
           \<and> unat (SizeOfBlock (packRelocation pb)) = length (relocData (packRelocation pb)) * 2 + 8
           \<and> even (length (relocData (packRelocation pb)))
           \<and> relocData (packRelocation pb)
               = map (\<lambda>offset. push_bit 12 IMAGE_REL_BASED_HIGHLOW OR (offset AND 0x0FFF)) (offsets pb)
                 @ (if odd (length (offsets pb)) then [0] else [])
           \<and> (\<forall>offset \<in> set (offsets pb).
                 unat ((push_bit 12 IMAGE_REL_BASED_HIGHLOW OR (offset AND 0x0FFF)) AND 0x0FFF) < 4096
               \<and> (push_bit 12 IMAGE_REL_BASED_HIGHLOW OR (offset AND 0x0FFF)) AND 0x0FFF = offset
               \<and> drop_bit 12 (push_bit 12 IMAGE_REL_BASED_HIGHLOW OR (offset AND 0x0FFF))
                   = IMAGE_REL_BASED_HIGHLOW))"
proof (intro conjI ballI)
  obtain st' where w: "writeOutputFile prepareStub layout st = (True, st')"
    using assms(1) by (cases "writeOutputFile prepareStub layout st") auto
  have "concat (packedPerBlock (ACTUALIZED_BASE_ADDRESS - ImageBase (peHeader pf))
                  (rewriteBlocks st) pf (sectionContents st)) \<noteq> []"
    using assms(3,4) by auto
  then show "map_option relocDir (peFile (snd (writeOutputFile prepareStub layout st)))
           = Some (map packRelocation packed)"
    using writeOutputFile_relocDir [OF w assms(2)] w assms(3) by auto
next
  fix pb assume "pb \<in> set packed"
  then have ok: "packedOk pb"
    using applyRewrites_result_packedOk [of "ACTUALIZED_BASE_ADDRESS - ImageBase (peHeader pf)"
        "rewriteBlocks st" pf "sectionContents st"] assms(3)
    by (auto simp: list_all_iff)
  show "blockVirtualAddress (packRelocation pb) = beginRVA pb"
    by (rule packRelocation_va)
  show "unat (SizeOfBlock (packRelocation pb)) = length (relocData (packRelocation pb)) * 2 + 8"
    using ok by (simp add: packRelocation_size_nat packedOk_def)
  show "even (length (relocData (packRelocation pb)))"
    by (rule packRelocation_even)
  show "relocData (packRelocation pb)
               = map (\<lambda>offset. push_bit 12 IMAGE_REL_BASED_HIGHLOW OR (offset AND 0x0FFF)) (offsets pb)
                 @ (if odd (length (offsets pb)) then [0] else [])"
    by (rule packRelocation_data)
  fix offset assume "offset \<in> set (offsets pb)"
  then have "offset < 4096"
    using ok by (simp add: packedOk_def list_all_iff)
  then show "(push_bit 12 IMAGE_REL_BASED_HIGHLOW OR (offset AND 0x0FFF)) AND 0x0FFF = offset"
    by (subst entry_low) (rule low_id)
  show "unat ((push_bit 12 IMAGE_REL_BASED_HIGHLOW OR (offset AND 0x0FFF)) AND 0x0FFF) < 4096"
    by (rule low_bound)
  show "drop_bit 12 (push_bit 12 IMAGE_REL_BASED_HIGHLOW OR (offset AND 0x0FFF)) = IMAGE_REL_BASED_HIGHLOW"
    by (rule entry_type)
qed





text \<open>
  Scenario S4: a rebased image with a section \<open>.rdata\<close> that holds \<open>hello\<close> at
  offset 0x40 and a final section \<open>.reloc\<close>, after \<open>rewriteMatches\<close> of \<open>hello\<close>
  and then of \<open>hel\<close>: two subrange blocks that start at the same slot.
\<close>

definition S4_rdata :: PeSectionContents where
  "S4_rdata = \<lparr>index = 0, RVA = 0x2000, rawSize = 0x200, rawPointer = 0x400, virtualSize = 0x200,
     name = ''.rdata'',
     data = replicate 64 0 @ [0x68, 0x65, 0x6C, 0x6C, 0x6F, 0, 0, 0] @ replicate 440 0\<rparr>"

definition S4_reloc :: PeSectionContents where
  "S4_reloc = \<lparr>index = 1, RVA = 0x3000, rawSize = 0x200, rawPointer = 0x600, virtualSize = 0,
     name = ''.reloc'', data = replicate 512 0\<rparr>"

definition S4_header :: PeHeader where
  "S4_header = \<lparr>DllCharacteristics = 0, ImageBase = 0xFFFF0000, AddressOfEntryPoint = 0x1000,
     IddBaseRelocRva = 0x3000, IddBaseRelocSize = 0, IddIatRva = 0, IddIatSize = 0,
     IddImportRva = 0, IddImportSize = 0, NumberOfSections = 2,
     sectionTable = [\<lparr>SectionName = ''.rdata'', VirtualSize = 0x200, VirtualAddress = 0x2000,
        SizeOfRawData = 0x200, PointerToRawData = 0x400, Characteristics = 0x40000040\<rparr>,
       \<lparr>SectionName = ''.reloc'', VirtualSize = 0, VirtualAddress = 0x3000,
        SizeOfRawData = 0x200, PointerToRawData = 0x600, Characteristics = 0x42000040\<rparr>]\<rparr>"

definition S4_file :: PeFile where
  "S4_file = \<lparr>addressOfPeHeader = 0x80, peHeader = S4_header, relocDir = [], fileRelocations = Some []\<rparr>"

definition S4 :: PeRecompiler where
  "S4 = \<lparr>infoStream = [], errorStream = [], peFile = Some S4_file,
     sectionContents = [S4_rdata, S4_reloc], sectionPool = [],
     rewriteBlocks = [PeSectionRewriteBlock 0 (Some (0x40, 6)), PeSectionRewriteBlock 0 (Some (0x40, 4))],
     multiPass = False, shouldUseWin10Attack = False, outputFile = None\<rparr>"

definition noStub :: "u32 \<Rightarrow> u8 list option" where
  "noStub ep = None"

definition S4_layout :: "PeHeader \<Rightarrow> u32 \<Rightarrow> u32 \<times> u32 \<times> u32" where
  "S4_layout h sz = (0x4000, 0x200, 0x800)"

lemma S4_per: "packedPerBlock (ACTUALIZED_BASE_ADDRESS - ImageBase (peHeader S4_file)) (rewriteBlocks S4) S4_file (sectionContents S4)
  = [[\<lparr>beginRVA = 0x2040, offsets = [0, 4]\<rparr>], [\<lparr>beginRVA = 0x2040, offsets = [0]\<rparr>]]"
  by (simp add: S4_def S4_file_def S4_header_def S4_rdata_def S4_reloc_def ACTUALIZED_BASE_ADDRESS_def
       getFirstEntryLoc_def getNextEntryLoc_def decrementEntry_def sectionRange_def dataSize_def chunkSize_def
       applyEntries.simps recordOffset_def getData_def putData_def le32_def bytes32_def Let_def)

lemma firstSection_layout:
  "layoutOf a = layoutOf b \<Longrightarrow> firstSection a rva sz = firstSection b rva sz"
proof (induction a arbitrary: b)
  case Nil
  then show ?case by (simp add: layoutOf_def)
next
  case (Cons s a)
  then obtain t b' where b: "b = t # b'" by (cases b) (auto simp: layoutOf_def)
  with Cons.prems have "RVA s = RVA t" "rawSize s = rawSize t" "layoutOf a = layoutOf b'"
    by (simp_all add: layoutOf_def)
  then show ?case using Cons.IH [of b'] b by simp
qed

lemma getSectionByRVA_layout:
  "layoutOf a = layoutOf b \<Longrightarrow> getSectionByRVA a rva sz = getSectionByRVA b rva sz"
  using firstSection_layout [of a b rva sz] by (simp add: getSectionByRVA_def)

lemma embedAndWrite_succeeds:
  assumes "getSectionByRVA scs (IddBaseRelocRva (peHeader pf)) 4 = Some i"
    and "shouldUseWin10Attack st \<longrightarrow> (\<forall>ep. ps ep \<noteq> None)"
  shows "fst (embedAndWrite ps lay st pf scs)"
proof (cases "shouldUseWin10Attack st")
  case False
  then show ?thesis using assms(1)
    by (simp add: embedAndWrite_def Let_def split: prod.splits)
next
  case True
  obtain h2 scs2 where e: "embedRelocs (relocDir pf) i (peHeader pf) scs = (h2, scs2)"
    by (cases "embedRelocs (relocDir pf) i (peHeader pf) scs")
  have "ps (AddressOfEntryPoint (makeValid h2)) \<noteq> None"
    using assms(2) True by blast
  then obtain stub where s: "ps (AddressOfEntryPoint (makeValid h2)) = Some stub"
    by auto
  show ?thesis using assms(1) True e s
    by (simp add: embedAndWrite_def injectStub_def Let_def split: prod.splits)
qed

lemma writeOutputFile_succeeds:
  assumes "peFile st = Some pf" and "sectionContents st \<noteq> []" and "relocDir pf = []"
    and "getSectionByRVA (sectionContents st) (IddBaseRelocRva (peHeader pf)) 4 = Some i"
    and "shouldUseWin10Attack st \<longrightarrow> (\<forall>ep. ps ep \<noteq> None)"
  shows "fst (writeOutputFile ps lay st)"
proof -
  let ?d = "ACTUALIZED_BASE_ADDRESS - ImageBase (peHeader pf)"
  obtain pf1 scs1 packed where a: "applyRewrites ?d (rewriteBlocks st) pf (sectionContents st) [] = (pf1, scs1, packed)"
    by (cases "applyRewrites ?d (rewriteBlocks st) pf (sectionContents st) []") auto
  have f: "headerFrame pf1 = headerFrame pf"
    using applyRewrites_frame [of ?d "rewriteBlocks st" pf "sectionContents st" "[]"] a by simp
  have r: "relocDir pf1 = []"
    using headerFrame_relocDir [OF f] assms(3) by simp
  have l: "layoutOf scs1 = layoutOf (sectionContents st)"
    using applyRewrites_layout [of ?d "rewriteBlocks st" pf "sectionContents st" "[]"] a by simp
  have g: "getSectionByRVA scs1 (IddBaseRelocRva (peHeader pf1)) 4 = Some i"
    using getSectionByRVA_layout [OF l] headerFrame_relocRva [OF f] assms(4) by simp
  have w: "shouldUseWin10Attack (logInfo ms s) = shouldUseWin10Attack s" for ms s
    by (simp add: logInfo_def)
  show ?thesis
    using assms(1,2) a r
      embedAndWrite_succeeds [of scs1 pf1 i "logInfo [GeneratingOutput] st" ps lay]
      embedAndWrite_succeeds [of scs1 "pf1\<lparr>relocDir := generateRelocs packed (relocDir pf1)\<rparr>" i
         "logInfo [AppliedAllRewrites, GeneratedRelocTable (length packed)] (logInfo [GeneratingOutput] st)" ps lay]
      g assms(5)
    by (simp add: writeOutputFile_def Let_def w)
qed

lemma S4_run: "fst (writeOutputFile noStub S4_layout S4)"
  by (rule writeOutputFile_succeeds [of S4 S4_file 1])
     (simp_all add: S4_def S4_file_def S4_header_def S4_rdata_def S4_reloc_def getSectionByRVA_def)

text \<open>
  Claim C5 on scenario S4: one real entry and a pad, then two real entries and no pad;
  both blocks have the size 12.
\<close>

theorem C5_witness:
  "fst (writeOutputFile noStub S4_layout S4)
   \<and> map_option relocDir (peFile (snd (writeOutputFile noStub S4_layout S4)))
       = Some (map packRelocation [\<lparr>beginRVA = 0x2040, offsets = [0]\<rparr>, \<lparr>beginRVA = 0x2040, offsets = [0, 4]\<rparr>])
   \<and> packRelocation \<lparr>beginRVA = 0x2040, offsets = [0]\<rparr>
       = \<lparr>blockVirtualAddress = 0x2040, SizeOfBlock = 12, relocData = [0x3000, 0]\<rparr>
   \<and> packRelocation \<lparr>beginRVA = 0x2040, offsets = [0, 4]\<rparr>
       = \<lparr>blockVirtualAddress = 0x2040, SizeOfBlock = 12, relocData = [0x3000, 0x3004]\<rparr>"
  using C5_emitted_block_headers [OF S4_run _ refl, of S4_file] S4_run
  by (simp add: S4_per)
     (simp add: S4_def S4_file_def packRelocation_def IMAGE_REL_BASED_HIGHLOW_def)

section \<open>The scan of the import address table\<close>

text \<open>
  A rebased image whose import address table, at RVA 0x2000, holds one thunk, the RVA
  0x2040 of a hint/name entry, and the null thunk that ends the table.
\<close>

definition C7_rdata :: PeSectionContents where
  "C7_rdata = \<lparr>index = 0, RVA = 0x2000, rawSize = 0x200, rawPointer = 0x400, virtualSize = 0x200,
     name = ''.rdata'', data = [0x40, 0x20, 0, 0, 0, 0, 0, 0] @ replicate 504 0\<rparr>"

definition C7_header :: PeHeader where
  "C7_header = \<lparr>DllCharacteristics = 0, ImageBase = 0xFFFF0000, AddressOfEntryPoint = 0x1000,
     IddBaseRelocRva = 0, IddBaseRelocSize = 0, IddIatRva = 0x2000, IddIatSize = 8,
     IddImportRva = 0, IddImportSize = 0, NumberOfSections = 1,
     sectionTable = [\<lparr>SectionName = ''.rdata'', VirtualSize = 0x200, VirtualAddress = 0x2000,
        SizeOfRawData = 0x200, PointerToRawData = 0x400, Characteristics = 0x40000040\<rparr>]\<rparr>"

definition C7_input :: PeRecompiler where
  "C7_input = \<lparr>infoStream = [], errorStream = [],
     peFile = Some \<lparr>addressOfPeHeader = 0x80, peHeader = C7_header, relocDir = [],
                    fileRelocations = Some []\<rparr>,
     sectionContents = [C7_rdata], sectionPool = [], rewriteBlocks = [], multiPass = False,
     shouldUseWin10Attack = False, outputFile = None\<rparr>"

lemma C7_scan: "scanIat (data C7_rdata) 8 0 0xFFFFFFFF 0 = Some (0x2040, 0)"
  by (simp add: scanIat.simps C7_rdata_def getData_def le32_def)

lemma C7_rdata_fields: "RVA C7_rdata = 0x2000" "rawSize C7_rdata = 0x200"
  by (simp_all add: C7_rdata_def)

text \<open>
  Claim C7 at a table with one import. The only non-zero value, 0x2040, is the minimum
  and the maximum. The scan takes it as the lowest RVA and leaves the highest at 0 (the
  test for the highest is the \<open>else\<close> of the test for the lowest), so the block
  enqueued for the names starts at RVA 0x2040, has the size \<open>0 - 0x2040\<close> and the message
  gives the range from 0x2040 to 0.
\<close>

theorem C7_single_import_scan:
  "map_option (\<lambda>(r, st). (r, rewriteBlocks st, last (infoStream st)))
       (rewriteImports (\<lambda>b n. None) C7_input)
     = Some (True,
             [PeSectionRewriteBlock 0 (Some (0, 8)), PeSectionRewriteBlock 0 (Some (0x40, 0xFFFFDFC0))],
             RewroteHintsNames 0x2040 0)"
  by (simp add: rewriteImports_def doRewriteReadyCheck_def C7_input_def C7_header_def TRICKY_BASE_ADDRESS_def
      rewriteSubsectionByRVA_def getSectionByRVA_def addRewriteBlock_def logInfo_def Let_def C7_scan
      C7_rdata_fields)

section \<open>The preselection stub\<close>

lemma updSection_names:
  assumes "\<And>s. SectionName (f s) = SectionName s"
  shows "map SectionName (sectionTable (updSection i f h)) = map SectionName (sectionTable h)"
proof (cases "i < length (sectionTable h)")
  case True
  then show ?thesis
    by (simp add: updSection_def map_update assms list_update_same_conv)
next
  case False
  then show ?thesis by (simp add: updSection_def list_update_beyond)
qed

lemma embedRelocs_names:
  "map SectionName (sectionTable (fst (embedRelocs reloc i h scs))) = map SectionName (sectionTable h)"
  by (simp add: embedRelocs_def Let_def updSection_names)

lemma embedRelocs_length: "length (snd (embedRelocs reloc i h scs)) = length scs"
  by (simp add: embedRelocs_def Let_def)

lemma injectStub_fresh:
  assumes "injectStub ps lay h scs [] = Some (h', scs', pool', msgs)"
  shows "\<exists>stub sc. ps (AddressOfEntryPoint h) = Some stub
     \<and> map SectionName (sectionTable h') = map SectionName (sectionTable h) @ [''.presel'', ''.presel'']
     \<and> AddressOfEntryPoint h' = VirtualAddress (sectionTable h' ! length (sectionTable h))
     \<and> scs' = scs @ [sc] \<and> index sc = length (sectionTable h) \<and> name sc = ''.presel''
     \<and> RVA sc = AddressOfEntryPoint h' \<and> data sc = stub"
  using assms
  by (auto simp: injectStub_def allocSection_def addSection_def makeValid_def updSection_def Let_def
                 nth_append
           split: option.splits prod.splits)

lemma embedAndWrite_win10:
  assumes "embedAndWrite ps lay st pf scs = (True, st')" and "shouldUseWin10Attack st"
    and "sectionPool st = []"
  shows "\<exists>pf' stub sc scs2. peFile st' = Some pf' \<and> (\<exists>ep. ps ep = Some stub)
     \<and> map SectionName (sectionTable (peHeader pf'))
         = map SectionName (sectionTable (peHeader pf)) @ [''.presel'', ''.presel'']
     \<and> AddressOfEntryPoint (peHeader pf')
         = VirtualAddress (sectionTable (peHeader pf') ! length (sectionTable (peHeader pf)))
     \<and> sectionContents st' = scs2 @ [sc] \<and> length scs2 = length scs
     \<and> index sc = length (sectionTable (peHeader pf)) \<and> name sc = ''.presel''
     \<and> RVA sc = AddressOfEntryPoint (peHeader pf') \<and> data sc = stub
     \<and> map_option outPeHeader (outputFile st') = Some (peHeader pf')"
proof -
  obtain i where i: "getSectionByRVA scs (IddBaseRelocRva (peHeader pf)) 4 = Some i"
    using assms(1) by (cases "getSectionByRVA scs (IddBaseRelocRva (peHeader pf)) 4")
                      (auto simp: embedAndWrite_def)
  obtain h2 scs2 where e: "embedRelocs (relocDir pf) i (peHeader pf) scs = (h2, scs2)"
    by (cases "embedRelocs (relocDir pf) i (peHeader pf) scs")
  have names: "map SectionName (sectionTable (makeValid h2)) = map SectionName (sectionTable (peHeader pf))"
    using embedRelocs_names [of "relocDir pf" i "peHeader pf" scs] e by (simp add: makeValid_def)
  then have len: "length (sectionTable (makeValid h2)) = length (sectionTable (peHeader pf))"
    by (metis length_map)
  have len2: "length scs2 = length scs"
    using embedRelocs_length [of "relocDir pf" i "peHeader pf" scs] e by simp
  obtain h4 scs3 pool3 msgs where inj: "injectStub ps lay (makeValid h2) scs2 [] = Some (h4, scs3, pool3, msgs)"
    and st': "st' = logInfo ([InjectingStub] @ msgs @
                  [WroteMzHeader, WrotePeHeader, WroteSectionTable, WroteSectionContents])
               ((logInfo [UpdatedRelocMetaData, ValidatedHeader] st)
                  \<lparr>peFile := Some (pf\<lparr>peHeader := h4\<rparr>), sectionContents := scs3,
                   sectionPool := pool3,
                   outputFile := Some (writeFile (pf\<lparr>peHeader := h4\<rparr>) scs3)\<rparr>)"
    using assms i e
    by (auto simp: embedAndWrite_def Let_def split: option.splits)
  from injectStub_fresh [OF inj] obtain stub sc where
    f: "ps (AddressOfEntryPoint (makeValid h2)) = Some stub"
      "map SectionName (sectionTable h4) = map SectionName (sectionTable (makeValid h2)) @ [''.presel'', ''.presel'']"
      "AddressOfEntryPoint h4 = VirtualAddress (sectionTable h4 ! length (sectionTable (makeValid h2)))"
      "scs3 = scs2 @ [sc]" "index sc = length (sectionTable (makeValid h2))" "name sc = ''.presel''"
      "RVA sc = AddressOfEntryPoint h4" "data sc = stub"
    by blast
  show ?thesis
    using f names len len2 st'
    by (intro exI [of _ "pf\<lparr>peHeader := h4\<rparr>"] exI [of _ stub] exI [of _ sc] exI [of _ scs2])
       (auto simp: logInfo_def writeFile_def)
qed

text \<open>
  Claim C10. In Win10 mode, with the section pool empty as it always is, a successful
  \<open>writeOutputFile\<close> leaves a section table that is the table of the input followed
  by two sections named \<open>.presel\<close> (\<open>addSection\<close> runs once in \<open>allocSection\<close> and
  once more in \<open>writeOutputFile\<close>). The entry point is the virtual address of the
  first of the two. One section buffer is added, for the first of the two: it has the
  index of that section, its name and its RVA, and it holds the bytes of the stub. The
  header written to the output file is this header.
\<close>

theorem C10_presel_added_twice:
  assumes "fst (writeOutputFile prepareStub layout st)" and "shouldUseWin10Attack st"
    and "sectionPool st = []" and "peFile st = Some pf"
  shows "\<exists>pf' stub sc scs2.
       peFile (snd (writeOutputFile prepareStub layout st)) = Some pf'
     \<and> (\<exists>ep. prepareStub ep = Some stub)
     \<and> map SectionName (sectionTable (peHeader pf'))
         = map SectionName (sectionTable (peHeader pf)) @ [''.presel'', ''.presel'']
     \<and> AddressOfEntryPoint (peHeader pf')
         = VirtualAddress (sectionTable (peHeader pf') ! length (sectionTable (peHeader pf)))
     \<and> sectionContents (snd (writeOutputFile prepareStub layout st)) = scs2 @ [sc]
     \<and> length scs2 = length (sectionContents st)
     \<and> index sc = length (sectionTable (peHeader pf)) \<and> name sc = ''.presel''
     \<and> RVA sc = AddressOfEntryPoint (peHeader pf') \<and> data sc = stub
     \<and> map_option outPeHeader (outputFile (snd (writeOutputFile prepareStub layout st)))
         = Some (peHeader pf')"
proof -
  let ?d = "ACTUALIZED_BASE_ADDRESS - ImageBase (peHeader pf)"
  obtain st' where w: "writeOutputFile prepareStub layout st = (True, st')"
    using assms(1) by (cases "writeOutputFile prepareStub layout st") auto
  obtain pf1 scs1 packed where a: "applyRewrites ?d (rewriteBlocks st) pf (sectionContents st) [] = (pf1, scs1, packed)"
    by (cases "applyRewrites ?d (rewriteBlocks st) pf (sectionContents st) []") auto
  have "headerFrame pf1 = headerFrame pf"
    using applyRewrites_frame [of ?d "rewriteBlocks st" pf "sectionContents st" "[]"] a by simp
  then have t: "sectionTable (peHeader pf1) = sectionTable (peHeader pf)"
    by (rule headerFrame_sectionTable)
  have "layoutOf scs1 = layoutOf (sectionContents st)"
    using applyRewrites_layout [of ?d "rewriteBlocks st" pf "sectionContents st" "[]"] a by simp
  then have l: "length scs1 = length (sectionContents st)"
    by (rule layoutOf_length)
  have "\<exists>st1 pf2. embedAndWrite prepareStub layout st1 pf2 scs1 = (True, st')
          \<and> shouldUseWin10Attack st1 \<and> sectionPool st1 = [] \<and> peHeader pf2 = peHeader pf1"
  proof (cases "packed = []")
    case True
    then have "embedAndWrite prepareStub layout (logInfo [GeneratingOutput] st) pf1 scs1 = (True, st')"
      using w a assms(4) by (simp add: writeOutputFile_def Let_def split: if_splits)
    then show ?thesis using assms(2,3)
      by (intro exI [of _ "logInfo [GeneratingOutput] st"] exI [of _ pf1]) (simp add: logInfo_def)
  next
    case False
    then have "embedAndWrite prepareStub layout
                 (logInfo [AppliedAllRewrites, GeneratedRelocTable (length packed)] (logInfo [GeneratingOutput] st))
                 (pf1\<lparr>relocDir := generateRelocs packed (relocDir pf1)\<rparr>) scs1 = (True, st')"
      using w a assms(4) by (simp add: writeOutputFile_def Let_def split: if_splits)
    then show ?thesis using assms(2,3)
      by (intro exI [of _ "logInfo [AppliedAllRewrites, GeneratedRelocTable (length packed)]
                             (logInfo [GeneratingOutput] st)"]
                exI [of _ "pf1\<lparr>relocDir := generateRelocs packed (relocDir pf1)\<rparr>"])
         (simp add: logInfo_def)
  qed
  then obtain st1 pf2 where e: "embedAndWrite prepareStub layout st1 pf2 scs1 = (True, st')"
    and c: "shouldUseWin10Attack st1" "sectionPool st1 = []" "peHeader pf2 = peHeader pf1"
    by blast
  from embedAndWrite_win10 [OF e c(1,2)] show ?thesis
    using w t l c(3) by simp
qed

text \<open>Scenario S4 in Win10 mode, with a stub that pushes the original entry point and returns.\<close>

definition S10 :: PeRecompiler where
  "S10 = S4\<lparr>shouldUseWin10Attack := True\<rparr>"

definition S10_stub :: "u32 \<Rightarrow> u8 list option" where
  "S10_stub ep = Some (0x68 # bytes32 ep @ [0xC3])"

lemma S10_run: "fst (writeOutputFile S10_stub S4_layout S10)"
  by (rule writeOutputFile_succeeds [of S10 S4_file 1])
     (simp_all add: S10_def S4_def S4_file_def S4_header_def S4_rdata_def S4_reloc_def getSectionByRVA_def
        S10_stub_def)

text \<open>
  Claim C10 on that scenario: the table is \<open>.rdata\<close>, \<open>.reloc\<close>, \<open>.presel\<close>,
  \<open>.presel\<close>; the entry point is the address of section 2; there are three buffers and
  the last one is the buffer of section 2.
\<close>

theorem C10_witness:
  "fst (writeOutputFile S10_stub S4_layout S10)
   \<and> map_option (\<lambda>pf. map SectionName (sectionTable (peHeader pf)))
        (peFile (snd (writeOutputFile S10_stub S4_layout S10)))
       = Some [''.rdata'', ''.reloc'', ''.presel'', ''.presel'']
   \<and> map_option (\<lambda>pf. AddressOfEntryPoint (peHeader pf) = VirtualAddress (sectionTable (peHeader pf) ! 2))
        (peFile (snd (writeOutputFile S10_stub S4_layout S10))) = Some True
   \<and> length (sectionContents (snd (writeOutputFile S10_stub S4_layout S10))) = 3
   \<and> index (last (sectionContents (snd (writeOutputFile S10_stub S4_layout S10)))) = 2
   \<and> name (last (sectionContents (snd (writeOutputFile S10_stub S4_layout S10)))) = ''.presel''"
proof -
  let ?st' = "snd (writeOutputFile S10_stub S4_layout S10)"
  have in1: "shouldUseWin10Attack S10" "sectionPool S10 = []" "peFile S10 = Some S4_file"
    by (simp_all add: S10_def S4_def)
  have in2: "map SectionName (sectionTable (peHeader S4_file)) = [''.rdata'', ''.reloc'']"
      "length (sectionTable (peHeader S4_file)) = 2" "length (sectionContents S10) = 2"
    by (simp_all add: S10_def S4_def S4_file_def S4_header_def)
  from C10_presel_added_twice [OF S10_run in1] obtain pf' stub sc scs2 where
    r: "peFile ?st' = Some pf'"
      "map SectionName (sectionTable (peHeader pf'))
         = map SectionName (sectionTable (peHeader S4_file)) @ [''.presel'', ''.presel'']"
      "AddressOfEntryPoint (peHeader pf')
         = VirtualAddress (sectionTable (peHeader pf') ! length (sectionTable (peHeader S4_file)))"
      "sectionContents ?st' = scs2 @ [sc]" "length scs2 = length (sectionContents S10)"
      "index sc = length (sectionTable (peHeader S4_file))" "name sc = ''.presel''"
    by blast
  show ?thesis
    using S10_run r in2 by simp
qed

section \<open>The slots that the rewrite blocks decrement\<close>










text \<open>A value written by \<open>putData\<close> is read back, and other windows are not changed.\<close>

lemma le32_bytes32: "le32 (bytes32 v) = v"
  unfolding le32_def bytes32_def
  apply simp
  apply (rule bit_word_eqI)
  apply (auto simp: bit_simps)
  apply (case_tac "n < 24"; simp)
  done

lemma window_put:
  assumes "length B = n" and "s + n \<le> length d" and "t + m \<le> s \<or> s + n \<le> t"
  shows "take m (drop t (take s d @ B @ drop (s + n) d)) = take m (drop t d)"
proof (rule nth_equalityI)
  show "length (take m (drop t (take s d @ B @ drop (s + n) d))) = length (take m (drop t d))"
    using assms by auto
next
  fix k assume "k < length (take m (drop t (take s d @ B @ drop (s + n) d)))"
  then have k: "k < m" "t + k < length d" using assms by auto
  show "take m (drop t (take s d @ B @ drop (s + n) d)) ! k = take m (drop t d) ! k"
  proof (cases "t + m \<le> s")
    case True
    then show ?thesis using k assms by (simp add: nth_append)
  next
    case False
    then have "s + n \<le> t" using assms(3) by simp
    then show ?thesis using k assms by (simp add: nth_append add.commute diff_add_assoc2 trans_le_add1)
  qed
qed

lemma getData_putData_same:
  assumes "unat t + 4 \<le> length d"
  shows "getData (putData d t v) t = Some v"
proof -
  have "length (bytes32 v) = 4" by (simp add: bytes32_def)
  then have "take 4 (drop (unat t) (putData d t v)) = bytes32 v"
    using assms by (simp add: putData_def)
  then show ?thesis
    using assms by (simp add: getData_def putData_length le32_bytes32)
qed

lemma getData_putData_disjoint:
  assumes "unat t + 4 \<le> unat s \<or> unat s + 4 \<le> unat t"
  shows "getData (putData d s v) t = getData d t"
proof (cases "unat s + 4 \<le> length d")
  case False
  then show ?thesis by (simp add: putData_def)
next
  case True
  have "length (bytes32 v) = 4" by (simp add: bytes32_def)
  from window_put [OF this True, of "unat t" 4] assms
  have "take 4 (drop (unat t) (putData d s v)) = take 4 (drop (unat t) d)"
    using True by (simp add: putData_def)
  then show ?thesis by (simp add: getData_def putData_length)
qed



































section \<open>The positions that the relocation directory names\<close>

text \<open>
  The position an entry of the directory names, as the loop of lines 243-280 computes it:
  the section that holds the RVA of the block of the entry, and the offset \<open>si\<close> of
  the entry in the buffer of that section. An entry of type 0 names none, and the loop
  skips it. \<open>relocSites\<close> lists the positions of a directory in the order of the loop.
  Two positions are apart when they lie in different sections or their four bytes share
  none.
\<close>

definition entrySite :: "PeSectionContents list \<Rightarrow> u32 \<Rightarrow> u16 \<Rightarrow> (nat \<times> u32) option" where
  "entrySite scs relocBlockRVA entry =
     (if drop_bit 12 entry = 0 then None
      else map_option (\<lambda>i. (i, relocBlockRVA + ucast (entry AND 0x0FFF) - RVA (scs ! i)))
             (getSectionByRVA scs relocBlockRVA 4))"

definition blockSites :: "PeSectionContents list \<Rightarrow> u32 \<Rightarrow> u16 list \<Rightarrow> (nat \<times> u32) list" where
  "blockSites scs relocBlockRVA entries = List.map_filter (entrySite scs relocBlockRVA) entries"

definition relocSites :: "PeSectionContents list \<Rightarrow> RelocBlock list \<Rightarrow> (nat \<times> u32) list" where
  "relocSites scs reloc = concat (map (\<lambda>b. blockSites scs (blockVirtualAddress b) (relocData b)) reloc)"

definition apart :: "nat \<Rightarrow> u32 \<Rightarrow> nat \<times> u32 \<Rightarrow> bool" where
  "apart i si p = (fst p \<noteq> i \<or> unat (snd p) + 4 \<le> unat si \<or> unat si + 4 \<le> unat (snd p))"

text \<open>
  Scenario S1 with a second HIGHLOW entry, at offset 0x18, in place of the pad; and
  scenario S1 with the HIGHLOW entry at offset 0x10 written twice.
\<close>

definition S1_two :: PeRecompiler where
  "S1_two = S1\<lparr>peFile := Some \<lparr>addressOfPeHeader = 0x80, peHeader = S1_header, relocDir = [],
      fileRelocations = Some [\<lparr>blockVirtualAddress = 0x1000, SizeOfBlock = 12, relocData = [0x3010, 0x3018]\<rparr>]\<rparr>\<rparr>"

definition S1_twice :: PeRecompiler where
  "S1_twice = S1\<lparr>peFile := Some \<lparr>addressOfPeHeader = 0x80, peHeader = S1_header, relocDir = [],
      fileRelocations = Some [\<lparr>blockVirtualAddress = 0x1000, SizeOfBlock = 12, relocData = [0x3010, 0x3010]\<rparr>]\<rparr>\<rparr>"

lemma relocateEntries_length: "length (snd (relocateEntries delta bva sr es d)) = length d"
  by (induction es arbitrary: d) (auto simp: Let_def putData_length split: option.splits)

lemma highlow_nonzero: "drop_bit 12 e AND IMAGE_REL_BASED_HIGHLOW \<noteq> 0 \<Longrightarrow> drop_bit 12 (e::u16) \<noteq> 0"
  by auto

lemma relocateEntries_frame:
  "relocateEntries delta bva sr es d = (None, d') \<Longrightarrow>
   \<forall>e \<in> set es. drop_bit 12 e \<noteq> 0 \<longrightarrow>
      unat (bva + ucast (e AND 0x0FFF) - sr) + 4 \<le> unat si \<or> unat si + 4 \<le> unat (bva + ucast (e AND 0x0FFF) - sr)
   \<Longrightarrow> getData d' si = getData d si"
proof (induction es arbitrary: d)
  case Nil
  then show ?case by simp
next
  case (Cons e es)
  let ?s = "bva + ucast (e AND 0x0FFF) - sr"
  show ?case
  proof (cases "drop_bit 12 e AND IMAGE_REL_BASED_HIGHLOW \<noteq> 0")
    case True
    then have nz: "drop_bit 12 e \<noteq> 0" by (rule highlow_nonzero)
    then have dis: "unat ?s + 4 \<le> unat si \<or> unat si + 4 \<le> unat ?s"
      using Cons.prems(2) by simp
    obtain orig where o: "getData d ?s = Some orig"
      using Cons.prems(1) True by (cases "getData d ?s") (simp_all add: Let_def)
    then have "relocateEntries delta bva sr es (putData d ?s (orig + delta)) = (None, d')"
      using Cons.prems(1) True by (simp add: Let_def)
    from Cons.IH [OF this] Cons.prems(2)
    have "getData d' si = getData (putData d ?s (orig + delta)) si" by simp
    moreover have "unat si + 4 \<le> unat ?s \<or> unat ?s + 4 \<le> unat si"
      using dis by auto
    ultimately show ?thesis using getData_putData_disjoint [of si ?s d "orig + delta"] by simp
  next
    case False
    then have "drop_bit 12 e = 0 \<and> relocateEntries delta bva sr es d = (None, d')"
      using Cons.prems(1) by (simp add: Let_def split: if_splits)
    then show ?thesis using Cons.IH [of d] Cons.prems(2) by simp
  qed
qed

lemma relocateEntries_append:
  "relocateEntries delta bva sr (xs @ ys) d
     = (case relocateEntries delta bva sr xs d of
          (Some err, d1) \<Rightarrow> (Some err, d1)
        | (None, d1) \<Rightarrow> relocateEntries delta bva sr ys d1)"
  by (induction xs arbitrary: d) (auto simp: Let_def split: option.splits prod.splits)

lemma relocateEntries_hit:
  assumes "relocateEntries delta bva sr (epre @ e # epost) d = (None, d')"
    and "drop_bit 12 e = IMAGE_REL_BASED_HIGHLOW" and "si = bva + ucast (e AND 0x0FFF) - sr"
    and "\<forall>e' \<in> set epre \<union> set epost. drop_bit 12 e' \<noteq> 0 \<longrightarrow>
          unat (bva + ucast (e' AND 0x0FFF) - sr) + 4 \<le> unat si
          \<or> unat si + 4 \<le> unat (bva + ucast (e' AND 0x0FFF) - sr)"
  shows "\<exists>orig. getData d si = Some orig \<and> getData d' si = Some (orig + delta)"
proof -
  obtain r1 d1 where a: "relocateEntries delta bva sr epre d = (r1, d1)"
    by (cases "relocateEntries delta bva sr epre d")
  have r1: "r1 = None" and b: "relocateEntries delta bva sr (e # epost) d1 = (None, d')"
    using assms(1) a by (auto simp: relocateEntries_append split: option.splits)
  have f1: "getData d1 si = getData d si"
    using relocateEntries_frame [OF a [unfolded r1], of si] assms(4) by simp
  have t: "drop_bit 12 e AND IMAGE_REL_BASED_HIGHLOW \<noteq> 0"
    using assms(2) by (simp add: IMAGE_REL_BASED_HIGHLOW_def)
  obtain orig where o: "getData d1 si = Some orig"
    using b t assms(3) by (cases "getData d1 si") (simp_all add: Let_def)
  then have c: "relocateEntries delta bva sr epost (putData d1 si (orig + delta)) = (None, d')"
    using b t assms(3) by (simp add: Let_def)
  have inb: "unat si + 4 \<le> length d1"
    using o by (simp add: getData_def split: if_splits)
  have "getData d' si = getData (putData d1 si (orig + delta)) si"
    using relocateEntries_frame [OF c, of si] assms(4) by simp
  then have "getData d' si = Some (orig + delta)"
    using getData_putData_same [OF inb] by simp
  then show ?thesis using o f1 by simp
qed

lemma firstSection_bound: "firstSection scs rva sz = Some i \<Longrightarrow> i < length scs"
  by (induction scs arbitrary: i) (auto split: if_splits)

lemma getSectionByRVA_bound: "getSectionByRVA scs rva sz = Some i \<Longrightarrow> i < length scs"
  using firstSection_bound [of scs rva sz i] by (simp add: getSectionByRVA_def split: if_splits)

lemma layoutOf_update:
  assumes "length d' = length (data (scs ! i))"
  shows "layoutOf (scs[i := (scs ! i)\<lparr>data := d'\<rparr>]) = layoutOf scs"
proof (cases "i < length scs")
  case True
  then show ?thesis using assms by (simp add: layoutOf_def map_update list_update_same_conv)
next
  case False
  then show ?thesis by (simp add: list_update_beyond)
qed

lemma relocateBlocks_layout: "layoutOf (snd (relocateBlocks delta bs scs)) = layoutOf scs"
proof (induction bs arbitrary: scs)
  case Nil
  show ?case by simp
next
  case (Cons b bs)
  show ?case
  proof (cases "getSectionByRVA scs (blockVirtualAddress b) 4")
    case None
    then show ?thesis by (simp add: Let_def)
  next
    case (Some i)
    obtain r d' where e: "relocateEntries delta (blockVirtualAddress b) (RVA (scs ! i)) (relocData b) (data (scs ! i)) = (r, d')"
      by (cases "relocateEntries delta (blockVirtualAddress b) (RVA (scs ! i)) (relocData b) (data (scs ! i))")
    have "length d' = length (data (scs ! i))"
      using relocateEntries_length [of delta "blockVirtualAddress b" "RVA (scs ! i)" "relocData b" "data (scs ! i)"] e
      by simp
    then have l: "layoutOf (scs[i := (scs ! i)\<lparr>data := d'\<rparr>]) = layoutOf scs"
      by (rule layoutOf_update)
    show ?thesis
      using Some e l Cons.IH [of "scs[i := (scs ! i)\<lparr>data := d'\<rparr>]"]
      by (cases r) (simp_all add: Let_def)
  qed
qed

lemma relocateBlocks_append:
  "relocateBlocks delta (xs @ ys) scs
     = (case relocateBlocks delta xs scs of
          (Some err, s1) \<Rightarrow> (Some err, s1)
        | (None, s1) \<Rightarrow> relocateBlocks delta ys s1)"
  by (induction xs arbitrary: scs) (auto simp: Let_def split: option.splits prod.splits)

lemma entrySite_layout:
  assumes "layoutOf a = layoutOf b"
  shows "entrySite a bva e = entrySite b bva e"
proof (cases "getSectionByRVA b bva 4")
  case None
  then show ?thesis using getSectionByRVA_layout [OF assms, of bva 4] by (simp add: entrySite_def)
next
  case (Some i)
  then have "RVA (a ! i) = RVA (b ! i)"
    using layoutOf_nth [OF assms, of i] getSectionByRVA_bound [of b bva 4 i] by simp
  then show ?thesis using Some getSectionByRVA_layout [OF assms, of bva 4] by (simp add: entrySite_def)
qed

lemma relocSites_layout:
  assumes "layoutOf a = layoutOf b"
  shows "relocSites a bs = relocSites b bs"
proof -
  have "entrySite a = entrySite b"
    by (intro ext) (rule entrySite_layout [OF assms])
  then show ?thesis by (simp add: relocSites_def blockSites_def)
qed

lemma blockSites_apart:
  assumes "list_all (apart i si) (blockSites scs bva es)" and "getSectionByRVA scs bva 4 = Some i"
    and "e \<in> set es" and "drop_bit 12 e \<noteq> 0"
  shows "unat (bva + ucast (e AND 0x0FFF) - RVA (scs ! i)) + 4 \<le> unat si
         \<or> unat si + 4 \<le> unat (bva + ucast (e AND 0x0FFF) - RVA (scs ! i))"
proof -
  have "(i, bva + ucast (e AND 0x0FFF) - RVA (scs ! i)) \<in> set (blockSites scs bva es)"
    using assms(2,3,4) by (force simp: blockSites_def map_filter_def entrySite_def image_iff)
  then show ?thesis using assms(1) by (auto simp: list_all_iff apart_def)
qed

lemma relocSites_Cons:
  "relocSites scs (b # bs) = blockSites scs (blockVirtualAddress b) (relocData b) @ relocSites scs bs"
  by (simp add: relocSites_def)

lemma blockSites_Nil: "blockSites scs bva [] = []"
  by (simp add: blockSites_def map_filter_def)

lemma relocateBlocks_frame:
  "relocateBlocks delta bs scs = (None, scs') \<Longrightarrow> list_all (apart i si) (relocSites scs bs)
   \<Longrightarrow> getData (data (scs' ! i)) si = getData (data (scs ! i)) si"
proof (induction bs arbitrary: scs)
  case Nil
  then show ?case by simp
next
  case (Cons b bs)
  let ?bva = "blockVirtualAddress b"
  obtain k where k: "getSectionByRVA scs ?bva 4 = Some k"
    using Cons.prems(1) by (cases "getSectionByRVA scs ?bva 4") (simp_all add: Let_def)
  obtain r d1 where e: "relocateEntries delta ?bva (RVA (scs ! k)) (relocData b) (data (scs ! k)) = (r, d1)"
    by (cases "relocateEntries delta ?bva (RVA (scs ! k)) (relocData b) (data (scs ! k))")
  let ?s1 = "scs[k := (scs ! k)\<lparr>data := d1\<rparr>]"
  have r: "r = None" and rest: "relocateBlocks delta bs ?s1 = (None, scs')"
    using Cons.prems(1) k e by (cases r; simp add: Let_def)+
  have kl: "k < length scs" using getSectionByRVA_bound [OF k] .
  have len: "length d1 = length (data (scs ! k))"
    using relocateEntries_length [of delta ?bva "RVA (scs ! k)" "relocData b" "data (scs ! k)"] e by simp
  have l: "layoutOf ?s1 = layoutOf scs" using len by (rule layoutOf_update)
  have here: "list_all (apart i si) (blockSites scs ?bva (relocData b))"
    and there: "list_all (apart i si) (relocSites scs bs)"
    using Cons.prems(2) by (simp_all add: relocSites_Cons)
  have one: "getData (data (?s1 ! i)) si = getData (data (scs ! i)) si"
  proof (cases "k = i")
    case False
    then show ?thesis by simp
  next
    case True
    have "\<forall>e \<in> set (relocData b). drop_bit 12 e \<noteq> 0 \<longrightarrow>
            unat (?bva + ucast (e AND 0x0FFF) - RVA (scs ! k)) + 4 \<le> unat si
            \<or> unat si + 4 \<le> unat (?bva + ucast (e AND 0x0FFF) - RVA (scs ! k))"
      using blockSites_apart [OF here k [unfolded True]] True by blast
    from relocateEntries_frame [OF e [unfolded r] this] show ?thesis
      using True kl by simp
  qed
  have "list_all (apart i si) (relocSites ?s1 bs)"
    using there relocSites_layout [OF l, of bs] by simp
  from Cons.IH [OF rest this] show ?case using one by simp
qed

lemma relocateBlocks_hit:
  assumes "relocateBlocks delta (pre @ b # post) scs = (None, scs')"
    and "relocData b = epre @ e # epost" and "drop_bit 12 e = IMAGE_REL_BASED_HIGHLOW"
    and "entrySite scs (blockVirtualAddress b) e = Some (i, si)"
    and "list_all (apart i si)
           (relocSites scs pre @ blockSites scs (blockVirtualAddress b) epre
            @ blockSites scs (blockVirtualAddress b) epost @ relocSites scs post)"
  shows "\<exists>orig. getData (data (scs ! i)) si = Some orig
               \<and> getData (data (scs' ! i)) si = Some (orig + delta)"
proof -
  let ?bva = "blockVirtualAddress b"
  obtain r1 s1 where a: "relocateBlocks delta pre scs = (r1, s1)"
    by (cases "relocateBlocks delta pre scs")
  have r1: "r1 = None" and b: "relocateBlocks delta (b # post) s1 = (None, scs')"
    using assms(1) a by (auto simp: relocateBlocks_append split: option.splits)
  have l1: "layoutOf s1 = layoutOf scs"
    using relocateBlocks_layout [of delta pre scs] a by simp
  have ap: "list_all (apart i si) (relocSites scs pre)"
      "list_all (apart i si) (blockSites scs ?bva epre)"
      "list_all (apart i si) (blockSites scs ?bva epost)"
      "list_all (apart i si) (relocSites scs post)"
    using assms(5) by simp_all
  have f1: "getData (data (s1 ! i)) si = getData (data (scs ! i)) si"
    using relocateBlocks_frame [OF a [unfolded r1] ap(1)] .
  have g: "getSectionByRVA scs ?bva 4 = Some i" and si: "si = ?bva + ucast (e AND 0x0FFF) - RVA (scs ! i)"
    using assms(4) by (auto simp: entrySite_def split: if_splits)
  have il: "i < length scs" using getSectionByRVA_bound [OF g] .
  have g1: "getSectionByRVA s1 ?bva 4 = Some i"
    using getSectionByRVA_layout [OF l1, of ?bva 4] g by simp
  have rva1: "RVA (s1 ! i) = RVA (scs ! i)"
    using layoutOf_nth [OF l1 il] by simp
  have il1: "i < length s1" using layoutOf_length [OF l1] il by simp
  obtain r d1 where en: "relocateEntries delta ?bva (RVA (s1 ! i)) (relocData b) (data (s1 ! i)) = (r, d1)"
    by (cases "relocateEntries delta ?bva (RVA (s1 ! i)) (relocData b) (data (s1 ! i))")
  let ?s2 = "s1[i := (s1 ! i)\<lparr>data := d1\<rparr>]"
  have r: "r = None" and rest: "relocateBlocks delta post ?s2 = (None, scs')"
    using b g1 en by (cases r; simp add: Let_def)+
  have others: "\<forall>e' \<in> set epre \<union> set epost. drop_bit 12 e' \<noteq> 0 \<longrightarrow>
          unat (?bva + ucast (e' AND 0x0FFF) - RVA (s1 ! i)) + 4 \<le> unat si
          \<or> unat si + 4 \<le> unat (?bva + ucast (e' AND 0x0FFF) - RVA (s1 ! i))"
    using blockSites_apart [OF ap(2) g] blockSites_apart [OF ap(3) g] rva1 by auto
  from relocateEntries_hit [OF en [unfolded r assms(2)] assms(3) si [folded rva1] others]
  obtain orig where o: "getData (data (s1 ! i)) si = Some orig" "getData d1 si = Some (orig + delta)"
    by blast
  have len: "length d1 = length (data (s1 ! i))"
    using relocateEntries_length [of delta ?bva "RVA (s1 ! i)" "relocData b" "data (s1 ! i)"] en by simp
  have l2: "layoutOf ?s2 = layoutOf scs"
    using layoutOf_update [OF len] l1 by simp
  have "list_all (apart i si) (relocSites ?s2 post)"
    using ap(4) relocSites_layout [OF l2, of post] by simp
  from relocateBlocks_frame [OF rest this]
  have "getData (data (scs' ! i)) si = Some (orig + delta)"
    using o(2) il1 by simp
  then show ?thesis using o(1) f1 by simp
qed

lemma performOnDiskRelocations_blocks:
  assumes "performOnDiskRelocations st = (True, st')" and "peFile st = Some pf"
    and "fileRelocations pf = Some reloc"
  shows "relocateBlocks (ACTUALIZED_BASE_ADDRESS - ImageBase (peHeader pf)) reloc (sectionContents st)
           = (None, sectionContents st')"
  using assms
  by (auto simp: performOnDiskRelocations_def Let_def logInfo_def logError_def
           split: if_splits option.splits prod.splits)

text \<open>
  Claim C1, as the code has it. Take an entry of type HIGHLOW (3) of the original
  relocation directory, and the position it names: the offset \<open>si\<close> in the buffer
  of section \<open>i\<close>, the section that holds the RVA of the block of the entry. When
  \<open>performOnDiskRelocations\<close> succeeds and every other entry of the directory with a
  type other than 0 names a position that is apart from this one, the position held a
  32-bit value before the call, and after the call it holds that value plus
  \<open>ACTUALIZED_BASE_ADDRESS\<close> less the original \<open>ImageBase\<close>, modulo \<open>2^32\<close>.
\<close>

theorem C1_relocation_applied:
  assumes "fst (performOnDiskRelocations st)" and "peFile st = Some pf"
    and "fileRelocations pf = Some (pre @ b # post)"
    and "relocData b = epre @ e # epost" and "drop_bit 12 e = IMAGE_REL_BASED_HIGHLOW"
    and "entrySite (sectionContents st) (blockVirtualAddress b) e = Some (i, si)"
    and "list_all (apart i si)
           (relocSites (sectionContents st) pre
            @ blockSites (sectionContents st) (blockVirtualAddress b) epre
            @ blockSites (sectionContents st) (blockVirtualAddress b) epost
            @ relocSites (sectionContents st) post)"
  shows "\<exists>original. getData (data (sectionContents st ! i)) si = Some original
           \<and> getData (data (sectionContents (snd (performOnDiskRelocations st)) ! i)) si
               = Some (original + (ACTUALIZED_BASE_ADDRESS - ImageBase (peHeader pf)))"
proof -
  obtain st' where w: "performOnDiskRelocations st = (True, st')"
    using assms(1) by (cases "performOnDiskRelocations st") auto
  from relocateBlocks_hit [OF performOnDiskRelocations_blocks [OF w assms(2,3)] assms(4-7)]
  show ?thesis using w by simp
qed

lemma S1_two_run: "fst (performOnDiskRelocations S1_two)"
  by (simp add: S1_two_def S1_defs rebase_defs)

lemma S1_two_input:
  "peFile S1_two = Some \<lparr>addressOfPeHeader = 0x80, peHeader = S1_header, relocDir = [],
      fileRelocations = Some ([] @ \<lparr>blockVirtualAddress = 0x1000, SizeOfBlock = 12, relocData = [0x3010, 0x3018]\<rparr> # [])\<rparr>"
  "relocData \<lparr>blockVirtualAddress = 0x1000, SizeOfBlock = 12, relocData = [0x3010, 0x3018]\<rparr> = [] @ 0x3010 # [0x3018]"
  "drop_bit 12 (0x3010 :: u16) = IMAGE_REL_BASED_HIGHLOW"
  "entrySite (sectionContents S1_two) 0x1000 0x3010 = Some (0, 0x10)"
  "blockSites (sectionContents S1_two) 0x1000 [0x3018] = [(0, 0x18)]"
  "getData (data (sectionContents S1_two ! 0)) 0x10 = Some 0x00401234"
  by (simp_all add: S1_two_def S1_defs entrySite_def blockSites_def map_filter_def getSectionByRVA_def
        IMAGE_REL_BASED_HIGHLOW_def getData_def le32_def)

text \<open>
  Claim C1 on scenario S1 with two entries: the other entry names offset 0x18 of the same
  section, and the window at offset 0x10 goes from 0x00401234 to 0x00011234.
\<close>

theorem C1_witness:
  "fst (performOnDiskRelocations S1_two)
   \<and> blockSites (sectionContents S1_two) 0x1000 [0x3018] = [(0, 0x18)]
   \<and> getData (data (sectionContents S1_two ! 0)) 0x10 = Some 0x00401234
   \<and> getData (data (sectionContents (snd (performOnDiskRelocations S1_two)) ! 0)) 0x10 = Some 0x00011234"
proof -
  have ap: "apart 0 0x10 (0, 0x18)" by (simp add: apart_def)
  from C1_relocation_applied [OF S1_two_run S1_two_input(1) _ S1_two_input(2), of "[]" "[]"]
    S1_two_input ap
  have "\<exists>original. getData (data (sectionContents S1_two ! 0)) 0x10 = Some original
           \<and> getData (data (sectionContents (snd (performOnDiskRelocations S1_two)) ! 0)) 0x10
               = Some (original + (ACTUALIZED_BASE_ADDRESS - ImageBase (peHeader
                    \<lparr>addressOfPeHeader = 0x80, peHeader = S1_header, relocDir = [],
      fileRelocations = Some ([] @ \<lparr>blockVirtualAddress = 0x1000, SizeOfBlock = 12, relocData = [0x3010, 0x3018]\<rparr> # [])\<rparr>)))"
    by (simp add: relocSites_def blockSites_Nil)
  then show ?thesis
    using S1_two_run S1_two_input(5,6)
    by (auto simp: S1_header_def ACTUALIZED_BASE_ADDRESS_def)
qed

text \<open>
  Claim C1 as it is written, without the condition on the other entries, fails when the
  directory names a position twice: on scenario S1 with the entry written twice the call
  succeeds, the position at offset 0x10 is named by an entry of type 3 and held
  0x00401234, and after the call it holds 0xFFC21234, the delta added twice, and not
  0x00401234 plus the delta.
\<close>

theorem C1_twice_named_position:
  "fst (performOnDiskRelocations S1_twice)
   \<and> peFile S1_twice
       = Some \<lparr>addressOfPeHeader = 0x80, peHeader = S1_header, relocDir = [],
                fileRelocations = Some [\<lparr>blockVirtualAddress = 0x1000, SizeOfBlock = 12,
                                         relocData = [0x3010, 0x3010]\<rparr>]\<rparr>
   \<and> drop_bit 12 (0x3010 :: u16) = IMAGE_REL_BASED_HIGHLOW
   \<and> entrySite (sectionContents S1_twice) 0x1000 0x3010 = Some (0, 0x10)
   \<and> ImageBase S1_header = 0x00400000
   \<and> getData (data (sectionContents S1_twice ! 0)) 0x10 = Some 0x00401234
   \<and> getData (data (sectionContents (snd (performOnDiskRelocations S1_twice)) ! 0)) 0x10
       = Some 0xFFC21234
   \<and> getData (data (sectionContents (snd (performOnDiskRelocations S1_twice)) ! 0)) 0x10
       \<noteq> Some (0x00401234 + (ACTUALIZED_BASE_ADDRESS - 0x00400000))"
  by (simp add: S1_twice_def S1_defs rebase_defs entrySite_def)

end
